theory Spec2Isabelle
  imports Complex_Main "HOL-Library.Word"
begin

section \<open>Scalars: the values of the C++ type float\<close>

text \<open>
  The program computes with \<^verbatim>\<open>float\<close>. A finite value is modelled by the real number it
  denotes; the two infinities and NaN are values of their own, because the program can
  produce them (a division by a zero length). Rounding and the sign of zero are not
  modelled: the theorems below are either about the structure of a computation (which
  operation is applied to which operand, in which order), or they evaluate inputs on which
  binary32 arithmetic is exact (small integers, halves, powers of two). Where the program
  branches on the result of a rounded operation, in the animation tick, the operations are
  a parameter instead (see \<open>arithmetic\<close> below). A comparison is exact in binary32 as it is
  here, and a comparison with NaN is false, as in IEEE 754.
\<close>

datatype float = Fin real | PInf | NInf | NaN

instantiation float :: "{zero, one, plus, minus, uminus, times, inverse, ord}"
begin

definition zero_float :: float where
  "zero_float = Fin 0"

definition one_float :: float where
  "one_float = Fin 1"

fun uminus_float :: "float \<Rightarrow> float" where
  "uminus_float (Fin a) = Fin (- a)"
| "uminus_float PInf = NInf"
| "uminus_float NInf = PInf"
| "uminus_float NaN = NaN"

fun plus_float :: "float \<Rightarrow> float \<Rightarrow> float" where
  "plus_float (Fin a) (Fin b) = Fin (a + b)"
| "plus_float NaN y = NaN"
| "plus_float x NaN = NaN"
| "plus_float PInf NInf = NaN"
| "plus_float NInf PInf = NaN"
| "plus_float PInf y = PInf"
| "plus_float x PInf = PInf"
| "plus_float NInf y = NInf"
| "plus_float x NInf = NInf"

definition minus_float :: "float \<Rightarrow> float \<Rightarrow> float" where
  "minus_float x y = x + (- y)"

fun times_float :: "float \<Rightarrow> float \<Rightarrow> float" where
  "times_float (Fin a) (Fin b) = Fin (a * b)"
| "times_float NaN y = NaN"
| "times_float x NaN = NaN"
| "times_float PInf (Fin b) = (if b = 0 then NaN else if 0 < b then PInf else NInf)"
| "times_float NInf (Fin b) = (if b = 0 then NaN else if 0 < b then NInf else PInf)"
| "times_float (Fin a) PInf = (if a = 0 then NaN else if 0 < a then PInf else NInf)"
| "times_float (Fin a) NInf = (if a = 0 then NaN else if 0 < a then NInf else PInf)"
| "times_float PInf PInf = PInf"
| "times_float NInf NInf = PInf"
| "times_float PInf NInf = NInf"
| "times_float NInf PInf = NInf"

fun divide_float :: "float \<Rightarrow> float \<Rightarrow> float" where
  "divide_float (Fin a) (Fin b) =
     (if b \<noteq> 0 then Fin (a / b)
      else if a = 0 then NaN else if 0 < a then PInf else NInf)"
| "divide_float NaN y = NaN"
| "divide_float x NaN = NaN"
| "divide_float (Fin a) PInf = Fin 0"
| "divide_float (Fin a) NInf = Fin 0"
| "divide_float PInf (Fin b) = (if 0 \<le> b then PInf else NInf)"
| "divide_float NInf (Fin b) = (if 0 \<le> b then NInf else PInf)"
| "divide_float x y = NaN"

fun inverse_float :: "float \<Rightarrow> float" where
  "inverse_float (Fin a) = (if a \<noteq> 0 then Fin (1 / a) else PInf)"
| "inverse_float PInf = Fin 0"
| "inverse_float NInf = Fin 0"
| "inverse_float NaN = NaN"

fun less_float :: "float \<Rightarrow> float \<Rightarrow> bool" where
  "less_float (Fin a) (Fin b) = (a < b)"
| "less_float NaN y = False"
| "less_float x NaN = False"
| "less_float x NInf = False"
| "less_float PInf y = False"
| "less_float NInf y = True"
| "less_float x PInf = True"

fun less_eq_float :: "float \<Rightarrow> float \<Rightarrow> bool" where
  "less_eq_float (Fin a) (Fin b) = (a \<le> b)"
| "less_eq_float NaN y = False"
| "less_eq_float x NaN = False"
| "less_eq_float NInf y = True"
| "less_eq_float x PInf = True"
| "less_eq_float x NInf = False"
| "less_eq_float PInf y = False"

instance ..

end

text \<open>\<^verbatim>\<open>std::sqrt\<close> on float: NaN below zero, the root otherwise.\<close>

fun fsqrt :: "float \<Rightarrow> float" where
  "fsqrt (Fin a) = (if a < 0 then NaN else Fin (sqrt a))"
| "fsqrt PInf = PInf"
| "fsqrt NInf = NaN"
| "fsqrt NaN = NaN"

text \<open>
  \<^verbatim>\<open>std::numeric_limits<float>::max()\<close> is the largest finite binary32 value,
  \<open>(2 - 2\<^sup>-\<^sup>2\<^sup>3) \<sqdot> 2\<^sup>1\<^sup>2\<^sup>7\<close>, and \<^verbatim>\<open>std::numeric_limits<float>::min()\<close> is the smallest
  positive normal value, \<open>2\<^sup>-\<^sup>1\<^sup>2\<^sup>6\<close> (not the most negative value, which is
  \<^verbatim>\<open>lowest()\<close>).
\<close>

definition FLT_MAX :: float where
  "FLT_MAX = Fin ((2 - 1 / 2 ^ 23) * 2 ^ 127)"

definition FLT_MIN :: float where
  "FLT_MIN = Fin (1 / 2 ^ 126)"

section \<open>Vectors, quaternions and matrices of GLM\<close>

text \<open>
  The program's linear algebra is the GLM library's. Its types are modelled by their
  components; a \<^verbatim>\<open>glm::mat4\<close> is four columns (GLM is column-major, \<^verbatim>\<open>m[i]\<close> is column
  \<open>i\<close>). The functions below follow GLM's definitions of \<^verbatim>\<open>operator*\<close>,
  \<^verbatim>\<open>glm::translate\<close>, \<^verbatim>\<open>glm::scale\<close>, \<^verbatim>\<open>glm::mat4_cast\<close>,
  \<^verbatim>\<open>glm::dot\<close>, \<^verbatim>\<open>glm::inversesqrt\<close> and \<^verbatim>\<open>glm::normalize\<close>.
\<close>

datatype vec2 = Vec2 float float

datatype vec3 = Vec3 float float float

datatype vec4 = Vec4 float float float float

datatype quat = Quat (qx: float) (qy: float) (qz: float) (qw: float)

datatype mat4 = Mat4 vec4 vec4 vec4 vec4

text \<open>\<^verbatim>\<open>vec4 * float\<close> and \<^verbatim>\<open>vec4 + vec4\<close>, component by component.\<close>

fun vec4_times :: "vec4 \<Rightarrow> float \<Rightarrow> vec4" where
  "vec4_times (Vec4 a b c d) k = Vec4 (a * k) (b * k) (c * k) (d * k)"

instantiation vec4 :: plus
begin

fun plus_vec4 :: "vec4 \<Rightarrow> vec4 \<Rightarrow> vec4" where
  "plus_vec4 (Vec4 a b c d) (Vec4 a' b' c' d') = Vec4 (a + a') (b + b') (c + c') (d + d')"

instance ..

end

text \<open>
  \<^verbatim>\<open>mat4 * vec4\<close> and \<^verbatim>\<open>mat4 * mat4\<close>: column \<open>j\<close> of the product is the first matrix
  applied to column \<open>j\<close> of the second, a sum of the first matrix's columns scaled by the
  components of that column.
\<close>

fun mat4_apply :: "mat4 \<Rightarrow> vec4 \<Rightarrow> vec4" where
  "mat4_apply (Mat4 a0 a1 a2 a3) (Vec4 x y z w) =
     vec4_times a0 x + vec4_times a1 y + vec4_times a2 z + vec4_times a3 w"

instantiation mat4 :: times
begin

fun times_mat4 :: "mat4 \<Rightarrow> mat4 \<Rightarrow> mat4" where
  "times_mat4 m1 (Mat4 b0 b1 b2 b3) =
     Mat4 (mat4_apply m1 b0) (mat4_apply m1 b1) (mat4_apply m1 b2) (mat4_apply m1 b3)"

instance ..

end

text \<open>\<^verbatim>\<open>glm::mat4(s)\<close>: \<open>s\<close> on the diagonal; \<^verbatim>\<open>glm::mat4(1.0f)\<close> is the identity.\<close>

definition mat4_diag :: "float \<Rightarrow> mat4" where
  "mat4_diag s = Mat4 (Vec4 s 0 0 0) (Vec4 0 s 0 0) (Vec4 0 0 s 0) (Vec4 0 0 0 s)"

text \<open>\<^verbatim>\<open>glm::translate(m, v)\<close>: the last column becomes \<open>m[0]*v.x + m[1]*v.y + m[2]*v.z + m[3]\<close>.\<close>

fun glm_translate :: "mat4 \<Rightarrow> vec3 \<Rightarrow> mat4" where
  "glm_translate (Mat4 m0 m1 m2 m3) (Vec3 x y z) =
     Mat4 m0 m1 m2 (vec4_times m0 x + vec4_times m1 y + vec4_times m2 z + m3)"

text \<open>\<^verbatim>\<open>glm::scale(m, v)\<close>: the first three columns scaled by the components of \<open>v\<close>.\<close>

fun glm_scale :: "mat4 \<Rightarrow> vec3 \<Rightarrow> mat4" where
  "glm_scale (Mat4 m0 m1 m2 m3) (Vec3 x y z) =
     Mat4 (vec4_times m0 x) (vec4_times m1 y) (vec4_times m2 z) m3"

text \<open>\<^verbatim>\<open>glm::mat4(q)\<close> for a quaternion \<open>q\<close>: the rotation matrix of \<^verbatim>\<open>glm::mat4_cast\<close>.\<close>

definition glm_mat4_cast :: "quat \<Rightarrow> mat4" where
  "glm_mat4_cast q =
     (let two = 1 + 1;
          qxx = qx q * qx q; qyy = qy q * qy q; qzz = qz q * qz q;
          qxz = qx q * qz q; qxy = qx q * qy q; qyz = qy q * qz q;
          qwx = qw q * qx q; qwy = qw q * qy q; qwz = qw q * qz q
      in Mat4
          (Vec4 (1 - two * (qyy + qzz)) (two * (qxy + qwz)) (two * (qxz - qwy)) 0)
          (Vec4 (two * (qxy - qwz)) (1 - two * (qxx + qzz)) (two * (qyz + qwx)) 0)
          (Vec4 (two * (qxz + qwy)) (two * (qyz - qwx)) (1 - two * (qxx + qyy)) 0)
          (Vec4 0 0 0 1))"

text \<open>The conversion of a \<^verbatim>\<open>vec4\<close> to a \<^verbatim>\<open>vec3\<close> keeps the first three components.\<close>

fun vec3_of_vec4 :: "vec4 \<Rightarrow> vec3" where
  "vec3_of_vec4 (Vec4 x y z w) = Vec3 x y z"

text \<open>
  \<^verbatim>\<open>glm::normalize(v) = v * inversesqrt(dot(v, v))\<close> with
  \<^verbatim>\<open>inversesqrt(x) = 1 / sqrt(x)\<close>. GLM has no special case for the zero vector.
\<close>

fun glm_dot :: "vec3 \<Rightarrow> vec3 \<Rightarrow> float" where
  "glm_dot (Vec3 a b c) (Vec3 a' b' c') = a * a' + b * b' + c * c'"

definition inversesqrt :: "float \<Rightarrow> float" where
  "inversesqrt x = 1 / fsqrt x"

fun vec3_times :: "vec3 \<Rightarrow> float \<Rightarrow> vec3" where
  "vec3_times (Vec3 a b c) k = Vec3 (a * k) (b * k) (c * k)"

definition glm_normalize :: "vec3 \<Rightarrow> vec3" where
  "glm_normalize v = vec3_times v (inversesqrt (glm_dot v v))"

section \<open>The scene graph\<close>

type_synonym u32 = "32 word"

text \<open>\<^verbatim>\<open>int32_t\<close>: 32 bits, read as a signed value with \<open>sint\<close>.\<close>

type_synonym i32 = "32 word"

type_synonym addr = nat

text \<open>A primitive: the data of one draw call, a slice of the global index buffer.\<close>

record Primitive =
  firstIndex :: u32
  indexCount :: u32
  materialIndex :: i32

text \<open>The mesh of a node. Its uniform buffer is a resource of the graphics API and is left out.\<close>

record Mesh =
  primitives :: "Primitive list"

text \<open>
  A node of the scene graph. The program allocates nodes with \<^verbatim>\<open>new\<close> and links them by
  pointers; here a pointer is the address of the node in a store (the list of all nodes
  allocated so far, in allocation order) or \<open>None\<close> for \<^verbatim>\<open>nullptr\<close>.
\<close>

record Node =
  parent :: "addr option"
  children :: "addr list"
  mesh :: Mesh
  matrix :: mat4
  index :: u32
  translation :: vec3
  scale :: vec3
  rotation :: quat

type_synonym store = "Node list"

text \<open>\<^verbatim>\<open>Node::getLocalMatrix\<close>.\<close>

definition getLocalMatrix :: "Node \<Rightarrow> mat4" where
  "getLocalMatrix n =
     glm_translate (mat4_diag 1) (translation n) * glm_mat4_cast (rotation n)
       * glm_scale (mat4_diag 1) (scale n) * matrix n"

text \<open>
  \<^verbatim>\<open>new Node{}\<close>: the members are value-initialised or take their default member
  initialisers. \<^verbatim>\<open>glm::quat rotation{}\<close> is the zero quaternion under GLM's defaulted
  constructors (the identity \<open>Quat 0 0 0 1\<close> under \<^verbatim>\<open>GLM_FORCE_CTOR_INIT\<close>); both give the
  identity rotation matrix, see \<open>glm_mat4_cast_zero\<close> and \<open>glm_mat4_cast_identity\<close>.
\<close>

definition newNode :: Node where
  "newNode =
     \<lparr>parent = None, children = [], mesh = \<lparr>primitives = []\<rparr>, matrix = mat4_diag 0,
      index = 0, translation = Vec3 0 0 0, scale = Vec3 1 1 1, rotation = Quat 0 0 0 0\<rparr>"

section \<open>Results of operations that the C++ standard leaves undefined\<close>

text \<open>
  \<open>Undefined\<close> stands for undefined behaviour of the C++ program: a null pointer or an
  address outside the store is dereferenced, or a \<^verbatim>\<open>std::vector\<close> is subscripted out of
  range. Where a function is defined by \<^theory_text>\<open>partial_function\<close> or takes fuel, the outer
  \<open>option\<close> is \<open>None\<close> when the call does not return.
\<close>

datatype 'a result = Ok 'a | Undefined

section \<open>The world matrix of a node\<close>

text \<open>
  \<^verbatim>\<open>VulkanglTFModel::getNodeMatrix\<close>: the loop over the parent pointers. It returns when
  it reaches a null parent.
\<close>

partial_function (option) getNodeMatrix_loop ::
  "store \<Rightarrow> addr option \<Rightarrow> mat4 \<Rightarrow> mat4 result option" where
  "getNodeMatrix_loop h currentParent nodeMatrix =
     (case currentParent of
        None \<Rightarrow> Some (Ok nodeMatrix)
      | Some p \<Rightarrow>
          if p < length h
          then getNodeMatrix_loop h (parent (h ! p)) (getLocalMatrix (h ! p) * nodeMatrix)
          else Some Undefined)"

definition getNodeMatrix :: "store \<Rightarrow> addr \<Rightarrow> mat4 result option" where
  "getNodeMatrix h node =
     (if node < length h
      then getNodeMatrix_loop h (parent (h ! node)) (getLocalMatrix (h ! node))
      else Some Undefined)"

text \<open>
  \<open>ancestors h p ps\<close>: following the parent pointers from \<open>p\<close> visits the nodes \<open>ps\<close>,
  nearest ancestor first, and ends at a null parent.
\<close>

inductive ancestors :: "store \<Rightarrow> addr option \<Rightarrow> addr list \<Rightarrow> bool" where
  root: "ancestors h None []"
| step: "p < length h \<Longrightarrow> ancestors h (parent (h ! p)) ps \<Longrightarrow> ancestors h (Some p) (p # ps)"

text \<open>
  A chain root (address 0), child (address 1), grandchild (address 2) that translate by
  \<open>(1,0,0)\<close>, \<open>(0,1,0)\<close> and \<open>(0,0,1)\<close>.
\<close>

definition translating :: "addr option \<Rightarrow> vec3 \<Rightarrow> Node" where
  "translating p t =
     newNode\<lparr>parent := p, matrix := mat4_diag 1, translation := t, rotation := Quat 0 0 0 1\<rparr>"

definition chain3 :: store where
  "chain3 =
     [translating None (Vec3 1 0 0),
      translating (Some 0) (Vec3 0 1 0),
      translating (Some 1) (Vec3 0 0 1)]"

section \<open>Animations\<close>

record AnimationSampler =
  interpolation :: string
  inputs :: "float list"
  outputsVec4 :: "vec4 list"

record AnimationChannel =
  path :: string
  node :: "addr option"
  samplerIndex :: u32

text \<open>The member \<^verbatim>\<open>end\<close> is named \<open>end'\<close>: \<open>end\<close> is a keyword here.\<close>

record Animation =
  name :: string
  samplers :: "AnimationSampler list"
  channels :: "AnimationChannel list"
  start :: float
  end' :: float
  currentTime :: float

text \<open>The lines the program prints on \<^verbatim>\<open>std::cout\<close> and \<^verbatim>\<open>std::cerr\<close>.\<close>

datatype message =
  NoAnimationWithIndex u32
  | OnlyLinearInterpolations
  | IndexComponentTypeNotSupported int
  | UnknownType

text \<open>
  The model: the store of the nodes, the root nodes, the animations, the nodes that carry
  geometry, the selected animation and the lines printed so far. Images, textures,
  materials and the buffers of the graphics API are left out.
\<close>

record VulkanglTFModel =
  heap :: store
  nodes :: "addr list"
  animations :: "Animation list"
  linearMeshNodes :: "addr list"
  activeAnimation :: u32
  console :: "message list"

text \<open>Sequencing: undefined behaviour ends the computation.\<close>

fun rbind :: "'a result \<Rightarrow> ('a \<Rightarrow> 'b result) \<Rightarrow> 'b result" where
  "rbind (Ok x) f = f x"
| "rbind Undefined f = Undefined"

text \<open>\<^verbatim>\<open>v[i]\<close> on a \<^verbatim>\<open>std::vector\<close>: undefined out of range.\<close>

definition subscript :: "'a list \<Rightarrow> nat \<Rightarrow> 'a result" where
  "subscript xs i = (if i < length xs then Ok (xs ! i) else Undefined)"

text \<open>An assignment to a member through a node pointer, \<^verbatim>\<open>p->member = v\<close>.\<close>

definition assign :: "store \<Rightarrow> addr option \<Rightarrow> (Node \<Rightarrow> Node) \<Rightarrow> store result" where
  "assign h p f =
     (case p of
        None \<Rightarrow> Undefined
      | Some a \<Rightarrow> if a < length h then Ok (h[a := f (h ! a)]) else Undefined)"

text \<open>
  The arithmetic of the animation tick. The program adds, subtracts, multiplies and
  divides in binary32, and each operation rounds its result; the tick compares a rounded
  sum with the end of the animation and with the key frame times, so its course depends on
  the rounding. The rounding is not computed here: the four operations are a parameter of
  the tick, and what is proved of the tick holds for every choice of them, the machine's
  among them. \<^verbatim>\<open>glm::slerp\<close> and \<^verbatim>\<open>glm::normalize\<close> on quaternions, which evaluate
  \<^verbatim>\<open>acos\<close>, \<^verbatim>\<open>sin\<close> and \<^verbatim>\<open>sqrt\<close>, are parameters in the same way.
\<close>

record arithmetic =
  fadd :: "float \<Rightarrow> float \<Rightarrow> float"
  fsub :: "float \<Rightarrow> float \<Rightarrow> float"
  fmul :: "float \<Rightarrow> float \<Rightarrow> float"
  fdiv :: "float \<Rightarrow> float \<Rightarrow> float"
  slerp :: "quat \<Rightarrow> quat \<Rightarrow> float \<Rightarrow> quat"
  normalize :: "quat \<Rightarrow> quat"

text \<open>
  The operations without rounding, with a quaternion blend that returns its first
  argument. They agree with binary32 wherever the exact result is a binary32 value.
\<close>

definition exact_arithmetic :: arithmetic where
  "exact_arithmetic =
     \<lparr>fadd = (\<lambda>x y. x + y), fsub = (\<lambda>x y. x - y), fmul = (\<lambda>x y. x * y),
      fdiv = (\<lambda>x y. x / y), slerp = (\<lambda>q1 q2 a. q1), normalize = (\<lambda>q. q)\<rparr>"

text \<open>\<^verbatim>\<open>glm::mix(x, y, a) = x * (1 - a) + y * a\<close>, on the components of a \<^verbatim>\<open>vec4\<close>.\<close>

definition mix :: "arithmetic \<Rightarrow> float \<Rightarrow> float \<Rightarrow> float \<Rightarrow> float" where
  "mix fp x y a = fadd fp (fmul fp x (fsub fp 1 a)) (fmul fp y a)"

fun glm_mix :: "arithmetic \<Rightarrow> vec4 \<Rightarrow> vec4 \<Rightarrow> float \<Rightarrow> vec4" where
  "glm_mix fp (Vec4 x0 x1 x2 x3) (Vec4 y0 y1 y2 y3) a =
     Vec4 (mix fp x0 y0 a) (mix fp x1 y1 a) (mix fp x2 y2 a) (mix fp x3 y3 a)"

fun quat_of_vec4 :: "vec4 \<Rightarrow> quat" where
  "quat_of_vec4 (Vec4 x y z w) = Quat x y z w"

text \<open>
  \<^verbatim>\<open>updateAnimation\<close>, the three assignments inside the test for the key frame pair
  \<open>i\<close>, \<open>i + 1\<close>, with the blend factor \<open>a\<close>.
\<close>

definition interpolate ::
  "arithmetic \<Rightarrow> AnimationChannel \<Rightarrow> AnimationSampler \<Rightarrow> nat \<Rightarrow> float \<Rightarrow> store \<Rightarrow>
     store result" where
  "interpolate fp channel sampler i a h =
     rbind
       (if path channel = ''translation''
        then rbind (subscript (outputsVec4 sampler) i) (\<lambda>o0.
             rbind (subscript (outputsVec4 sampler) (i + 1)) (\<lambda>o1.
               assign h (node channel)
                 (\<lambda>n. n\<lparr>translation := vec3_of_vec4 (glm_mix fp o0 o1 a)\<rparr>)))
        else Ok h) (\<lambda>h.
     rbind
       (if path channel = ''rotation''
        then rbind (subscript (outputsVec4 sampler) i) (\<lambda>o0.
             rbind (subscript (outputsVec4 sampler) (i + 1)) (\<lambda>o1.
               assign h (node channel)
                 (\<lambda>n. n\<lparr>rotation :=
                    normalize fp (slerp fp (quat_of_vec4 o0) (quat_of_vec4 o1) a)\<rparr>)))
        else Ok h) (\<lambda>h.
       if path channel = ''scale''
       then rbind (subscript (outputsVec4 sampler) i) (\<lambda>o0.
            rbind (subscript (outputsVec4 sampler) (i + 1)) (\<lambda>o1.
              assign h (node channel)
                (\<lambda>n. n\<lparr>scale := vec3_of_vec4 (glm_mix fp o0 o1 a)\<rparr>)))
       else Ok h))"

text \<open>
  The body of the loop over the key frames of a LINEAR sampler: the test whether the current
  time lies in \<open>[inputs[i], inputs[i + 1]]\<close> (\<^verbatim>\<open>&&\<close> reads \<open>inputs[i + 1]\<close> only when the
  first comparison holds) and the interpolation.
\<close>

definition keyframe ::
  "arithmetic \<Rightarrow> float \<Rightarrow> AnimationChannel \<Rightarrow> AnimationSampler \<Rightarrow> nat \<Rightarrow> store \<Rightarrow>
     store result" where
  "keyframe fp t channel sampler i h =
     rbind (subscript (inputs sampler) i) (\<lambda>t0.
       if t \<ge> t0
       then rbind (subscript (inputs sampler) (i + 1)) (\<lambda>t1.
              if t \<le> t1
              then interpolate fp channel sampler i
                     (fdiv fp (fsub fp t t0) (fsub fp t1 t0)) h
              else Ok h)
       else Ok h)"

text \<open>
  The loop \<^verbatim>\<open>for (size_t i = 0; i < sampler.inputs.size() - 1; i++)\<close>. The bound is
  computed in \<^verbatim>\<open>size_t\<close>, 64 bits wide, so it wraps around for an empty vector.
\<close>

definition loop_bound :: "AnimationSampler \<Rightarrow> nat" where
  "loop_bound sampler = unat ((of_nat (length (inputs sampler)) :: 64 word) - 1)"

function keyframes ::
  "arithmetic \<Rightarrow> float \<Rightarrow> AnimationChannel \<Rightarrow> AnimationSampler \<Rightarrow> nat \<Rightarrow>
     store \<times> message list \<Rightarrow> (store \<times> message list) result" where
  "keyframes fp t channel sampler i (h, out) =
     (if i < loop_bound sampler
      then if interpolation sampler \<noteq> ''LINEAR''
           then keyframes fp t channel sampler (i + 1) (h, out @ [OnlyLinearInterpolations])
           else (case keyframe fp t channel sampler i h of
                   Undefined \<Rightarrow> Undefined
                 | Ok h' \<Rightarrow> keyframes fp t channel sampler (i + 1) (h', out))
      else Ok (h, out))"
  by pat_completeness auto
termination
  by (relation "measure (\<lambda>(fp, t, channel, sampler, i, s). loop_bound sampler - i)") auto

declare keyframes.simps [simp del]

text \<open>The loop over the channels of the animation.\<close>

fun updateChannels ::
  "arithmetic \<Rightarrow> Animation \<Rightarrow> AnimationChannel list \<Rightarrow> store \<times> message list \<Rightarrow>
     (store \<times> message list) result" where
  "updateChannels fp animation [] s = Ok s"
| "updateChannels fp animation (channel # cs) s =
     rbind (subscript (samplers animation) (unat (samplerIndex channel))) (\<lambda>sampler.
     rbind (keyframes fp (currentTime animation) channel sampler 0 s)
       (updateChannels fp animation cs))"

text \<open>The two statements that advance and wrap the current time.\<close>

definition advance :: "arithmetic \<Rightarrow> float \<Rightarrow> Animation \<Rightarrow> Animation" where
  "advance fp deltaTime animation =
     (let animation = animation\<lparr>currentTime := fadd fp (currentTime animation) deltaTime\<rparr>
      in if currentTime animation > end' animation
         then animation\<lparr>currentTime := fsub fp (currentTime animation) (end' animation)\<rparr>
         else animation)"

text \<open>
  \<^verbatim>\<open>VulkanglTFModel::updateAnimation\<close>. The guard is computed in \<^verbatim>\<open>uint32_t\<close>. The final
  call of \<^verbatim>\<open>updateMeshUniformBuffers\<close> copies world matrices into mapped memory of the
  graphics API, which is no part of this state, and is left out.
\<close>

definition updateAnimation ::
  "arithmetic \<Rightarrow> float \<Rightarrow> VulkanglTFModel \<Rightarrow> VulkanglTFModel result" where
  "updateAnimation fp deltaTime m =
     (if activeAnimation m > (of_nat (length (animations m)) :: u32) - 1
      then Ok (m\<lparr>console := console m @ [NoAnimationWithIndex (activeAnimation m)]\<rparr>)
      else
        rbind (subscript (animations m) (unat (activeAnimation m))) (\<lambda>animation.
          let animation = advance fp deltaTime animation
          in rbind (updateChannels fp animation (channels animation) (heap m, console m))
               (\<lambda>(h, out).
                  Ok (m\<lparr>heap := h,
                        animations := (animations m)[unat (activeAnimation m) := animation],
                        console := out\<rparr>))))"

text \<open>
  One animation with a sampler with the input times \<open>[0.0, 1.0]\<close>, the end \<open>1.0\<close> and the
  current time \<open>0.0\<close>, and a translation channel on the only node.
\<close>

definition wrap_example :: VulkanglTFModel where
  "wrap_example =
     \<lparr>heap = [newNode], nodes = [0],
      animations =
        [\<lparr>name = ''a'',
          samplers =
            [\<lparr>interpolation = ''LINEAR'', inputs = [Fin 0, Fin 1],
              outputsVec4 = [Vec4 0 0 0 0, Vec4 (Fin 2) 0 0 0]\<rparr>],
          channels = [\<lparr>path = ''translation'', node = Some 0, samplerIndex = 0\<rparr>],
          start = Fin 0, end' = Fin 1, currentTime = Fin 0\<rparr>],
      linearMeshNodes = [], activeAnimation = 0, console = []\<rparr>"

text \<open>The same model with a sampler without key frames.\<close>

definition no_keyframes_example :: VulkanglTFModel where
  "no_keyframes_example =
     \<lparr>heap = [newNode], nodes = [0],
      animations =
        [\<lparr>name = ''a'',
          samplers = [\<lparr>interpolation = ''LINEAR'', inputs = [], outputsVec4 = []\<rparr>],
          channels = [\<lparr>path = ''translation'', node = Some 0, samplerIndex = 0\<rparr>],
          start = FLT_MAX, end' = FLT_MIN, currentTime = Fin 0\<rparr>],
      linearMeshNodes = [], activeAnimation = 0, console = []\<rparr>"

section \<open>Finding a node by its index\<close>

text \<open>
  \<^verbatim>\<open>VulkanglTFModel::findNode\<close> and its loop over the children. The recursion follows the
  child pointers of the store, so it takes fuel: the depth it may descend. \<open>None\<close> is a
  search that ran out of fuel, \<open>Some (Ok None)\<close> the result \<^verbatim>\<open>nullptr\<close>.
\<close>

fun findNode :: "nat \<Rightarrow> store \<Rightarrow> addr \<Rightarrow> u32 \<Rightarrow> addr option result option"
  and findNode_children :: "nat \<Rightarrow> store \<Rightarrow> addr list \<Rightarrow> u32 \<Rightarrow> addr option result option"
where
  "findNode 0 h p i = None"
| "findNode (Suc fuel) h p i =
     (if p < length h
      then if index (h ! p) = i then Some (Ok (Some p))
           else findNode_children fuel h (children (h ! p)) i
      else Some Undefined)"
| "findNode_children fuel h [] i = Some (Ok None)"
| "findNode_children fuel h (child # cs) i =
     (case findNode fuel h child i of
        None \<Rightarrow> None
      | Some Undefined \<Rightarrow> Some Undefined
      | Some (Ok (Some nodeFound)) \<Rightarrow> Some (Ok (Some nodeFound))
      | Some (Ok None) \<Rightarrow> findNode_children fuel h cs i)"

text \<open>
  \<^verbatim>\<open>VulkanglTFModel::nodeFromIndex\<close>: the same loop as over the children, over the root
  nodes of the model (start with \<^verbatim>\<open>nullptr\<close>, call findNode, stop at the first hit).
\<close>

definition nodeFromIndex :: "nat \<Rightarrow> VulkanglTFModel \<Rightarrow> u32 \<Rightarrow> addr option result option" where
  "nodeFromIndex fuel m i = findNode_children fuel (heap m) (nodes m) i"

text \<open>\<open>reaches h a b\<close>: the node \<open>b\<close> is \<open>a\<close> or below \<open>a\<close> along the child pointers.\<close>

inductive reaches :: "store \<Rightarrow> addr \<Rightarrow> addr \<Rightarrow> bool" for h where
  here: "reaches h a a"
| below: "c \<in> set (children (h ! a)) \<Longrightarrow> reaches h c b \<Longrightarrow> reaches h a b"

text \<open>
  A store in which every child was allocated after its parent, as the loader allocates
  them. The child pointers of such a store form a forest.
\<close>

definition tree_store :: "store \<Rightarrow> bool" where
  "tree_store h = (\<forall>a<length h. \<forall>c\<in>set (children (h ! a)). a < c \<and> c < length h)"

text \<open>
  What a search below the nodes \<open>roots\<close> may return: a node with the index below one of
  the roots, or \<^verbatim>\<open>nullptr\<close> when no node below the roots has the index.
\<close>

definition found :: "store \<Rightarrow> addr list \<Rightarrow> u32 \<Rightarrow> addr option \<Rightarrow> bool" where
  "found h roots i r =
     (case r of
        Some b \<Rightarrow> index (h ! b) = i \<and> (\<exists>a\<in>set roots. reaches h a b)
      | None \<Rightarrow> \<not> (\<exists>a\<in>set roots. \<exists>b. reaches h a b \<and> index (h ! b) = i))"


text \<open>The nodes of the model's forest: the nodes below its root nodes.\<close>

definition in_forest :: "VulkanglTFModel \<Rightarrow> addr \<Rightarrow> bool" where
  "in_forest m b = (\<exists>a\<in>set (nodes m). reaches (heap m) a b)"

text \<open>
  The order of the search: the nodes below a node, the node before its children and the
  children in their order, and the nodes below a list of nodes, in the order of the list.
  The listing takes fuel as the search does.
\<close>

fun preorder :: "nat \<Rightarrow> store \<Rightarrow> addr \<Rightarrow> addr list result option"
  and preorder_children :: "nat \<Rightarrow> store \<Rightarrow> addr list \<Rightarrow> addr list result option"
where
  "preorder 0 h p = None"
| "preorder (Suc fuel) h p =
     (if p < length h
      then (case preorder_children fuel h (children (h ! p)) of
              None \<Rightarrow> None
            | Some Undefined \<Rightarrow> Some Undefined
            | Some (Ok xs) \<Rightarrow> Some (Ok (p # xs)))
      else Some Undefined)"
| "preorder_children fuel h [] = Some (Ok [])"
| "preorder_children fuel h (c # cs) =
     (case preorder fuel h c of
        None \<Rightarrow> None
      | Some Undefined \<Rightarrow> Some Undefined
      | Some (Ok xs) \<Rightarrow>
          (case preorder_children fuel h cs of
             None \<Rightarrow> None
           | Some Undefined \<Rightarrow> Some Undefined
           | Some (Ok ys) \<Rightarrow> Some (Ok (xs @ ys))))"

text \<open>A root with the index 5 and two children with the indices 7 and 9.\<close>

definition forest_example :: VulkanglTFModel where
  "forest_example =
     \<lparr>heap = [newNode\<lparr>index := 5, children := [1, 2]\<rparr>,
              newNode\<lparr>index := 7, parent := Some 0\<rparr>,
              newNode\<lparr>index := 9, parent := Some 0\<rparr>],
      nodes = [0], animations = [], linearMeshNodes = [], activeAnimation = 0, console = []\<rparr>"

section \<open>The input of the loader\<close>

text \<open>
  The loader reads a \<^verbatim>\<open>tinygltf::Model\<close>. Its accessors, buffer views and buffers are
  modelled by the arrays they denote: an attribute or an index accessor is the list of the
  elements the loader reads through it (\<^verbatim>\<open>accessor.count\<close> is its length), and an
  attribute the primitive does not have is \<open>None\<close>. The members of the tinygltf records
  carry the prefix \<open>gltf_\<close> where the model's records have a member of the same name.
\<close>

text \<open>
  The data of an index accessor by its component type. \<open>OtherComponentType t n\<close> is an
  accessor of \<open>n\<close> elements whose component type \<open>t\<close> is none of the three unsigned
  types.
\<close>

datatype gltf_indices =
  UNSIGNED_INT "32 word list"
  | UNSIGNED_SHORT "16 word list"
  | UNSIGNED_BYTE "8 word list"
  | OtherComponentType int nat

record gltf_Primitive =
  POSITION :: "vec3 list option"
  NORMAL :: "vec3 list option"
  TEXCOORD_0 :: "vec2 list option"
  indices :: gltf_indices
  material :: i32

record gltf_Node =
  gltf_translation :: "float list"
  gltf_rotation :: "float list"
  gltf_scale :: "float list"
  gltf_matrix :: "float list"
  gltf_children :: "int list"
  gltf_mesh :: int

datatype gltf_output = VEC3 "vec3 list" | VEC4 "vec4 list" | OtherType

record gltf_AnimationSampler =
  gltf_interpolation :: string
  gltf_input :: "float list"
  gltf_output :: gltf_output

record gltf_AnimationChannel =
  target_path :: string
  gltf_sampler :: int
  target_node :: int

record gltf_Animation =
  gltf_name :: string
  gltf_samplers :: "gltf_AnimationSampler list"
  gltf_channels :: "gltf_AnimationChannel list"

text \<open>\<open>scene_nodes\<close> is \<^verbatim>\<open>input.scenes[0].nodes\<close>; a mesh is the list of its primitives.\<close>

record gltf_Model =
  gltf_nodes :: "gltf_Node list"
  gltf_meshes :: "gltf_Primitive list list"
  scene_nodes :: "int list"
  gltf_animations :: "gltf_Animation list"

section \<open>Loading the nodes and their geometry\<close>

record Vertex =
  pos :: vec3
  normal :: vec3
  uv :: vec2
  color :: vec3

text \<open>
  The state of the loader: the model and the two buffers that \<^verbatim>\<open>loadglTFFile\<close> passes to
  \<^verbatim>\<open>loadNode\<close> by reference.
\<close>

record loading =
  model :: VulkanglTFModel
  indexBuffer :: "u32 list"
  vertexBuffer :: "Vertex list"

text \<open>\<^verbatim>\<open>v[i]\<close> with an index of type \<^verbatim>\<open>int\<close>.\<close>

definition subscript_int :: "'a list \<Rightarrow> int \<Rightarrow> 'a result" where
  "subscript_int xs i = (if 0 \<le> i then subscript xs (nat i) else Undefined)"

text \<open>Running a step over a list of inputs, in order, until one is undefined.\<close>

fun collect :: "('a \<Rightarrow> 'b result) \<Rightarrow> 'a list \<Rightarrow> 'b list result" where
  "collect f [] = Ok []"
| "collect f (x # xs) = rbind (f x) (\<lambda>y. rbind (collect f xs) (\<lambda>ys. Ok (y # ys)))"

text \<open>
  The body of the loop over the vertices of a primitive: the vertex number \<open>v\<close>. The
  position buffer has \<open>vertexCount\<close> elements; a normal or texture coordinate buffer that
  is present is read at \<open>v\<close> as well. The normal is normalised, also when it is the default.
\<close>

definition makeVertex :: "gltf_Primitive \<Rightarrow> vec3 list \<Rightarrow> nat \<Rightarrow> Vertex result" where
  "makeVertex glTFPrimitive positionBuffer v =
     rbind (subscript positionBuffer v) (\<lambda>p.
     rbind (case NORMAL glTFPrimitive of
              Some normalsBuffer \<Rightarrow> subscript normalsBuffer v
            | None \<Rightarrow> Ok (Vec3 0 0 0)) (\<lambda>n.
     rbind (case TEXCOORD_0 glTFPrimitive of
              Some texCoordsBuffer \<Rightarrow> subscript texCoordsBuffer v
            | None \<Rightarrow> Ok (Vec2 0 0)) (\<lambda>t.
       Ok \<lparr>pos = p, normal = glm_normalize n, uv = t, color = Vec3 1 1 1\<rparr>)))"

text \<open>
  The vertices of a primitive. Without the attribute POSITION the vertex count stays 0 and
  the loop does not run.
\<close>

definition loadVertices :: "gltf_Primitive \<Rightarrow> Vertex list result" where
  "loadVertices glTFPrimitive =
     (case POSITION glTFPrimitive of
        None \<Rightarrow> Ok []
      | Some positionBuffer \<Rightarrow>
          collect (makeVertex glTFPrimitive positionBuffer) [0..<length positionBuffer])"

text \<open>\<^verbatim>\<open>accessor.count\<close> of the index accessor.\<close>

fun index_count :: "gltf_indices \<Rightarrow> nat" where
  "index_count (UNSIGNED_INT buf) = length buf"
| "index_count (UNSIGNED_SHORT buf) = length buf"
| "index_count (UNSIGNED_BYTE buf) = length buf"
| "index_count (OtherComponentType t n) = n"

text \<open>
  How a loop body ends: the loop goes on, or the function returns from inside the loop.
\<close>

datatype 'a flow = Continue 'a | Return 'a

text \<open>
  The end of the loop body, after the \<^verbatim>\<open>switch\<close> has computed the indices \<open>is\<close> to push:
  the primitive is appended to the mesh of the node at the address \<open>nodeAddr\<close>.
\<close>

definition pushPrimitive ::
  "gltf_Primitive \<Rightarrow> addr \<Rightarrow> u32 \<Rightarrow> u32 \<Rightarrow> u32 list \<Rightarrow> loading \<Rightarrow> loading flow result" where
  "pushPrimitive glTFPrimitive nodeAddr first count is s =
     (let s = s\<lparr>indexBuffer := indexBuffer s @ is\<rparr>;
          primitive = \<lparr>firstIndex = first, indexCount = count,
                       materialIndex = material glTFPrimitive\<rparr>
      in rbind (assign (heap (model s)) (Some nodeAddr)
                  (\<lambda>n. n\<lparr>mesh := \<lparr>primitives = primitives (mesh n) @ [primitive]\<rparr>\<rparr>))
           (\<lambda>h. Ok (Continue (s\<lparr>model := (model s)\<lparr>heap := h\<rparr>\<rparr>))))"

text \<open>
  \<^verbatim>\<open>loadNode\<close>, the body of the loop over the primitives of the mesh. Each index is
  widened to 32 bits and offset by \<open>vertexStart\<close>, in \<^verbatim>\<open>uint32_t\<close>. On an unknown component
  type the function prints a line and returns.
\<close>

definition loadPrimitive :: "gltf_Primitive \<Rightarrow> addr \<Rightarrow> loading \<Rightarrow> loading flow result" where
  "loadPrimitive glTFPrimitive nodeAddr s =
     (let first = of_nat (length (indexBuffer s)) :: u32;
          vertexStart = of_nat (length (vertexBuffer s)) :: u32
      in rbind (loadVertices glTFPrimitive) (\<lambda>vs.
           let s = s\<lparr>vertexBuffer := vertexBuffer s @ vs\<rparr>;
               count = of_nat (index_count (indices glTFPrimitive)) :: u32
           in case indices glTFPrimitive of
                UNSIGNED_INT buf \<Rightarrow>
                  pushPrimitive glTFPrimitive nodeAddr first count
                    (map (\<lambda>x. x + vertexStart) buf) s
              | UNSIGNED_SHORT buf \<Rightarrow>
                  pushPrimitive glTFPrimitive nodeAddr first count
                    (map (\<lambda>x. ucast x + vertexStart) buf) s
              | UNSIGNED_BYTE buf \<Rightarrow>
                  pushPrimitive glTFPrimitive nodeAddr first count
                    (map (\<lambda>x. ucast x + vertexStart) buf) s
              | OtherComponentType t n \<Rightarrow>
                  Ok (Return (s\<lparr>model := (model s)
                        \<lparr>console := console (model s) @ [IndexComponentTypeNotSupported t]\<rparr>\<rparr>))))"

fun loadPrimitives :: "gltf_Primitive list \<Rightarrow> addr \<Rightarrow> loading \<Rightarrow> loading flow result" where
  "loadPrimitives [] nodeAddr s = Ok (Continue s)"
| "loadPrimitives (glTFPrimitive # ps) nodeAddr s =
     rbind (loadPrimitive glTFPrimitive nodeAddr s) (\<lambda>r.
       case r of Return s' \<Rightarrow> Ok (Return s') | Continue s' \<Rightarrow> loadPrimitives ps nodeAddr s')"

text \<open>The node that \<^verbatim>\<open>loadNode\<close> creates, before its children and its mesh are loaded.\<close>

definition make_vec3 :: "float list \<Rightarrow> vec3" where
  "make_vec3 d = Vec3 (d ! 0) (d ! 1) (d ! 2)"

definition make_quat :: "float list \<Rightarrow> quat" where
  "make_quat d = Quat (d ! 0) (d ! 1) (d ! 2) (d ! 3)"

definition make_mat4x4 :: "float list \<Rightarrow> mat4" where
  "make_mat4x4 d =
     Mat4 (Vec4 (d ! 0) (d ! 1) (d ! 2) (d ! 3)) (Vec4 (d ! 4) (d ! 5) (d ! 6) (d ! 7))
       (Vec4 (d ! 8) (d ! 9) (d ! 10) (d ! 11)) (Vec4 (d ! 12) (d ! 13) (d ! 14) (d ! 15))"

definition createNode :: "gltf_Node \<Rightarrow> addr option \<Rightarrow> u32 \<Rightarrow> Node" where
  "createNode inputNode p nodeIndex =
     (let n = newNode\<lparr>matrix := mat4_diag 1, parent := p, index := nodeIndex\<rparr>;
          n = (if length (gltf_translation inputNode) = 3
               then n\<lparr>translation := make_vec3 (gltf_translation inputNode)\<rparr> else n);
          n = (if length (gltf_rotation inputNode) = 4
               then n\<lparr>rotation := make_quat (gltf_rotation inputNode)\<rparr> else n);
          n = (if length (gltf_scale inputNode) = 3
               then n\<lparr>scale := make_vec3 (gltf_scale inputNode)\<rparr> else n);
          n = (if length (gltf_matrix inputNode) = 16
               then n\<lparr>matrix := make_mat4x4 (gltf_matrix inputNode)\<rparr> else n)
      in n)"

text \<open>
  The end of \<^verbatim>\<open>loadNode\<close>: the node is appended to the children of its parent or to the
  root nodes, and to the nodes with geometry when it has a primitive.
\<close>

definition attach :: "addr \<Rightarrow> addr option \<Rightarrow> VulkanglTFModel \<Rightarrow> VulkanglTFModel result" where
  "attach nodeAddr p m =
     rbind (case p of
              Some a \<Rightarrow>
                rbind (assign (heap m) (Some a) (\<lambda>n. n\<lparr>children := children n @ [nodeAddr]\<rparr>))
                  (\<lambda>h. Ok (m\<lparr>heap := h\<rparr>))
            | None \<Rightarrow> Ok (m\<lparr>nodes := nodes m @ [nodeAddr]\<rparr>)) (\<lambda>m.
     rbind (subscript (heap m) nodeAddr) (\<lambda>n.
       if primitives (mesh n) \<noteq> []
       then Ok (m\<lparr>linearMeshNodes := linearMeshNodes m @ [nodeAddr]\<rparr>)
       else Ok m))"

text \<open>
  \<^verbatim>\<open>VulkanglTFModel::loadNode\<close> and its loop over the children. The recursion follows the
  child indices of the input, so it takes fuel; \<open>None\<close> is a call that ran out of it.
\<close>

fun loadNode ::
    "nat \<Rightarrow> gltf_Node \<Rightarrow> gltf_Model \<Rightarrow> addr option \<Rightarrow> u32 \<Rightarrow> loading \<Rightarrow> loading result option"
  and loadChildren ::
    "nat \<Rightarrow> gltf_Model \<Rightarrow> addr \<Rightarrow> int list \<Rightarrow> loading \<Rightarrow> loading result option"
where
  "loadNode 0 inputNode input p nodeIndex s = None"
| "loadNode (Suc fuel) inputNode input p nodeIndex s =
     (let nodeAddr = length (heap (model s));
          s = s\<lparr>model := (model s)
                \<lparr>heap := heap (model s) @ [createNode inputNode p nodeIndex]\<rparr>\<rparr>
      in case loadChildren fuel input nodeAddr (gltf_children inputNode) s of
           None \<Rightarrow> None
         | Some Undefined \<Rightarrow> Some Undefined
         | Some (Ok s) \<Rightarrow>
             Some (rbind
               (if gltf_mesh inputNode > - 1
                then rbind (subscript_int (gltf_meshes input) (gltf_mesh inputNode))
                       (\<lambda>ps. loadPrimitives ps nodeAddr s)
                else Ok (Continue s))
               (\<lambda>r. case r of
                  Return s \<Rightarrow> Ok s
                | Continue s \<Rightarrow>
                    rbind (attach nodeAddr p (model s)) (\<lambda>m. Ok (s\<lparr>model := m\<rparr>)))))"
| "loadChildren fuel input nodeAddr [] s = Some (Ok s)"
| "loadChildren fuel input nodeAddr (c # cs) s =
     (case subscript_int (gltf_nodes input) c of
        Undefined \<Rightarrow> Some Undefined
      | Ok inputNode \<Rightarrow>
          (case loadNode fuel inputNode input (Some nodeAddr) (of_int c) s of
             None \<Rightarrow> None
           | Some Undefined \<Rightarrow> Some Undefined
           | Some (Ok s) \<Rightarrow> loadChildren fuel input nodeAddr cs s))"


section \<open>Loading the animations\<close>

text \<open>\<^verbatim>\<open>std::vector::resize\<close> with the value-initialised element \<open>d\<close>.\<close>

definition resize :: "'a list \<Rightarrow> nat \<Rightarrow> 'a \<Rightarrow> 'a list" where
  "resize xs n d = take n xs @ replicate (n - length xs) d"

definition newSampler :: AnimationSampler where
  "newSampler = \<lparr>interpolation = [], inputs = [], outputsVec4 = []\<rparr>"

definition newChannel :: AnimationChannel where
  "newChannel = \<lparr>path = [], node = None, samplerIndex = 0\<rparr>"

text \<open>A new animation: the default member initialisers of \<^verbatim>\<open>struct Animation\<close>.\<close>

definition newAnimation :: Animation where
  "newAnimation =
     \<lparr>name = [], samplers = [], channels = [], start = FLT_MAX, end' = FLT_MIN,
      currentTime = Fin 0\<rparr>"

text \<open>The loop that adjusts the start and the end of the animation to the input times.\<close>

fun adjust :: "float list \<Rightarrow> Animation \<Rightarrow> Animation" where
  "adjust [] a = a"
| "adjust (input # rest) a =
     (let a = (if input < start a then a\<lparr>start := input\<rparr> else a);
          a = (if input > end' a then a\<lparr>end' := input\<rparr> else a)
      in adjust rest a)"

fun vec4_of_vec3 :: "vec3 \<Rightarrow> vec4" where
  "vec4_of_vec3 (Vec3 x y z) = Vec4 x y z 0"

text \<open>The body of the loop over the samplers: the sampler number \<open>j\<close> of the animation.\<close>

definition loadSampler ::
  "gltf_AnimationSampler \<Rightarrow> nat \<Rightarrow> Animation \<times> message list \<Rightarrow> (Animation \<times> message list) result"
  where
  "loadSampler glTFSampler j s =
     (case s of (a, out) \<Rightarrow>
        rbind (subscript (samplers a) j) (\<lambda>dstSampler.
          let dstSampler = dstSampler\<lparr>interpolation := gltf_interpolation glTFSampler\<rparr>;
              dstSampler = dstSampler\<lparr>inputs := inputs dstSampler @ gltf_input glTFSampler\<rparr>;
              a = adjust (inputs dstSampler) a
          in case gltf_output glTFSampler of
               VEC3 buf \<Rightarrow>
                 Ok (a\<lparr>samplers := (samplers a)
                        [j := dstSampler\<lparr>outputsVec4 :=
                                outputsVec4 dstSampler @ map vec4_of_vec3 buf\<rparr>]\<rparr>, out)
             | VEC4 buf \<Rightarrow>
                 Ok (a\<lparr>samplers := (samplers a)
                        [j := dstSampler\<lparr>outputsVec4 := outputsVec4 dstSampler @ buf\<rparr>]\<rparr>, out)
             | OtherType \<Rightarrow>
                 Ok (a\<lparr>samplers := (samplers a)[j := dstSampler]\<rparr>, out @ [UnknownType])))"

fun loadSamplers ::
  "gltf_AnimationSampler list \<Rightarrow> nat \<Rightarrow> Animation \<times> message list \<Rightarrow>
     (Animation \<times> message list) result" where
  "loadSamplers [] j s = Ok s"
| "loadSamplers (glTFSampler # rest) j s =
     rbind (loadSampler glTFSampler j s) (loadSamplers rest (j + 1))"

text \<open>
  The body of the loop over the channels: the channel number \<open>j\<close>. The target node is
  looked up with nodeFromIndex and stored as it comes back, \<^verbatim>\<open>nullptr\<close> included.
\<close>

definition loadChannel ::
  "nat \<Rightarrow> VulkanglTFModel \<Rightarrow> gltf_AnimationChannel \<Rightarrow> nat \<Rightarrow> Animation \<Rightarrow>
     Animation result option" where
  "loadChannel fuel m glTFChannel j a =
     (case nodeFromIndex fuel m (of_int (target_node glTFChannel)) of
        None \<Rightarrow> None
      | Some Undefined \<Rightarrow> Some Undefined
      | Some (Ok nodeFound) \<Rightarrow>
          Some (rbind (subscript (channels a) j) (\<lambda>dstChannel.
            Ok (a\<lparr>channels := (channels a)
                  [j := dstChannel\<lparr>path := target_path glTFChannel,
                          samplerIndex := of_int (gltf_sampler glTFChannel),
                          node := nodeFound\<rparr>]\<rparr>))))"

fun loadChannels ::
  "nat \<Rightarrow> VulkanglTFModel \<Rightarrow> gltf_AnimationChannel list \<Rightarrow> nat \<Rightarrow> Animation \<Rightarrow>
     Animation result option" where
  "loadChannels fuel m [] j a = Some (Ok a)"
| "loadChannels fuel m (glTFChannel # rest) j a =
     (case loadChannel fuel m glTFChannel j a of
        None \<Rightarrow> None
      | Some Undefined \<Rightarrow> Some Undefined
      | Some (Ok a) \<Rightarrow> loadChannels fuel m rest (j + 1) a)"

text \<open>The body of the loop over the animations: the animation number \<open>i\<close>.\<close>

definition loadAnimation ::
  "nat \<Rightarrow> gltf_Animation \<Rightarrow> nat \<Rightarrow> VulkanglTFModel \<Rightarrow> VulkanglTFModel result option" where
  "loadAnimation fuel glTFAnimation i m =
     (case subscript (animations m) i of
        Undefined \<Rightarrow> Some Undefined
      | Ok a \<Rightarrow>
          let a = a\<lparr>name := gltf_name glTFAnimation\<rparr>;
              a = a\<lparr>samplers :=
                    resize (samplers a) (length (gltf_samplers glTFAnimation)) newSampler\<rparr>
          in case loadSamplers (gltf_samplers glTFAnimation) 0 (a, console m) of
               Undefined \<Rightarrow> Some Undefined
             | Ok (a, out) \<Rightarrow>
                 let a = a\<lparr>channels :=
                       resize (channels a) (length (gltf_channels glTFAnimation)) newChannel\<rparr>
                 in case loadChannels fuel m (gltf_channels glTFAnimation) 0 a of
                      None \<Rightarrow> None
                    | Some Undefined \<Rightarrow> Some Undefined
                    | Some (Ok a) \<Rightarrow>
                        Some (Ok (m\<lparr>animations := (animations m)[i := a], console := out\<rparr>)))"

fun loadAnimations_loop ::
  "nat \<Rightarrow> gltf_Animation list \<Rightarrow> nat \<Rightarrow> VulkanglTFModel \<Rightarrow> VulkanglTFModel result option"
  where
  "loadAnimations_loop fuel [] i m = Some (Ok m)"
| "loadAnimations_loop fuel (glTFAnimation # rest) i m =
     (case loadAnimation fuel glTFAnimation i m of
        None \<Rightarrow> None
      | Some Undefined \<Rightarrow> Some Undefined
      | Some (Ok m) \<Rightarrow> loadAnimations_loop fuel rest (i + 1) m)"

text \<open>\<^verbatim>\<open>VulkanglTFModel::loadAnimations\<close>; the fuel is nodeFromIndex's.\<close>

definition loadAnimations ::
  "nat \<Rightarrow> gltf_Model \<Rightarrow> VulkanglTFModel \<Rightarrow> VulkanglTFModel result option" where
  "loadAnimations fuel input m =
     loadAnimations_loop fuel (gltf_animations input) 0
       (m\<lparr>animations := resize (animations m) (length (gltf_animations input)) newAnimation\<rparr>)"

section \<open>Loading a file\<close>

text \<open>
  \<^verbatim>\<open>VulkanExample::loadglTFFile\<close>, up to the point where the buffers are handed to the
  graphics API. The file that tinygltf could not read is \<open>None\<close>; only then the function
  calls \<^verbatim>\<open>exitFatal\<close>. Otherwise it loads the root nodes of the scene and the animations
  and goes on to upload and present what it has loaded.
\<close>

datatype outcome = Fatal | Loaded loading

definition newModel :: VulkanglTFModel where
  "newModel =
     \<lparr>heap = [], nodes = [], animations = [], linearMeshNodes = [], activeAnimation = 0,
      console = []\<rparr>"

fun loadRoots :: "nat \<Rightarrow> gltf_Model \<Rightarrow> int list \<Rightarrow> loading \<Rightarrow> loading result option" where
  "loadRoots fuel input [] s = Some (Ok s)"
| "loadRoots fuel input (r # rs) s =
     (case subscript_int (gltf_nodes input) r of
        Undefined \<Rightarrow> Some Undefined
      | Ok inputNode \<Rightarrow>
          (case loadNode fuel inputNode input None (of_int r) s of
             None \<Rightarrow> None
           | Some Undefined \<Rightarrow> Some Undefined
           | Some (Ok s) \<Rightarrow> loadRoots fuel input rs s))"

definition loadglTFFile :: "nat \<Rightarrow> gltf_Model option \<Rightarrow> outcome result option" where
  "loadglTFFile fuel file =
     (case file of
        None \<Rightarrow> Some (Ok Fatal)
      | Some input \<Rightarrow>
          (case loadRoots fuel input (scene_nodes input)
                  \<lparr>model = newModel, indexBuffer = [], vertexBuffer = []\<rparr> of
             None \<Rightarrow> None
           | Some Undefined \<Rightarrow> Some Undefined
           | Some (Ok s) \<Rightarrow>
               (case loadAnimations fuel input (model s) of
                  None \<Rightarrow> None
                | Some Undefined \<Rightarrow> Some Undefined
                | Some (Ok m) \<Rightarrow> Some (Ok (Loaded (s\<lparr>model := m\<rparr>))))))"

text \<open>The source indices of an index accessor, widened to 32 bits.\<close>

fun widen :: "gltf_indices \<Rightarrow> u32 list" where
  "widen (UNSIGNED_INT buf) = buf"
| "widen (UNSIGNED_SHORT buf) = map ucast buf"
| "widen (UNSIGNED_BYTE buf) = map ucast buf"
| "widen (OtherComponentType t n) = []"

text \<open>The component types that the \<^verbatim>\<open>switch\<close> of the loader knows.\<close>

fun supported :: "gltf_indices \<Rightarrow> bool" where
  "supported (OtherComponentType t n) = False"
| "supported ix = True"

section \<open>Inputs of the loader used below\<close>

text \<open>An input with one animation whose only key frame is at the time \<open>0.0\<close>.\<close>

definition single_keyframe_input :: gltf_Model where
  "single_keyframe_input =
     \<lparr>gltf_nodes = [], gltf_meshes = [], scene_nodes = [],
      gltf_animations =
        [\<lparr>gltf_name = ''a'',
          gltf_samplers =
            [\<lparr>gltf_interpolation = ''LINEAR'', gltf_input = [Fin 0],
              gltf_output = VEC3 [Vec3 0 0 0]\<rparr>],
          gltf_channels = []\<rparr>]\<rparr>"

text \<open>A primitive with one vertex and without the attribute NORMAL.\<close>

definition no_normal_primitive :: gltf_Primitive where
  "no_normal_primitive =
     \<lparr>POSITION = Some [Vec3 (Fin 1) (Fin 2) (Fin 3)], NORMAL = None, TEXCOORD_0 = None,
      indices = UNSIGNED_SHORT [0], material = 0\<rparr>"

text \<open>
  Two primitives without normals, a triangle with 16-bit indices and a quad with 8-bit
  indices, and the states of the loader before and after each is appended to the only node.
\<close>

definition triangle :: gltf_Primitive where
  "triangle =
     \<lparr>POSITION = Some [Vec3 0 0 0, Vec3 1 0 0, Vec3 0 1 0], NORMAL = None, TEXCOORD_0 = None,
      indices = UNSIGNED_SHORT [0, 1, 2], material = 0\<rparr>"

definition quad :: gltf_Primitive where
  "quad =
     \<lparr>POSITION = Some [Vec3 0 0 0, Vec3 1 0 0, Vec3 0 1 0, Vec3 1 1 0], NORMAL = None,
      TEXCOORD_0 = None, indices = UNSIGNED_BYTE [0, 1, 2, 2, 1, 3], material = 1\<rparr>"

definition plain_vertex :: "vec3 \<Rightarrow> Vertex" where
  "plain_vertex p = \<lparr>pos = p, normal = Vec3 NaN NaN NaN, uv = Vec2 0 0, color = Vec3 1 1 1\<rparr>"

definition one_node :: loading where
  "one_node = \<lparr>model = newModel\<lparr>heap := [newNode]\<rparr>, indexBuffer = [], vertexBuffer = []\<rparr>"

definition after_triangle :: loading where
  "after_triangle =
     \<lparr>model = newModel
        \<lparr>heap := [newNode\<lparr>mesh := \<lparr>primitives =
                   [\<lparr>firstIndex = 0, indexCount = 3, materialIndex = 0\<rparr>]\<rparr>\<rparr>]\<rparr>,
      indexBuffer = [0, 1, 2],
      vertexBuffer = map plain_vertex [Vec3 0 0 0, Vec3 1 0 0, Vec3 0 1 0]\<rparr>"

definition after_quad :: loading where
  "after_quad =
     \<lparr>model = newModel
        \<lparr>heap := [newNode\<lparr>mesh := \<lparr>primitives =
                   [\<lparr>firstIndex = 0, indexCount = 3, materialIndex = 0\<rparr>,
                    \<lparr>firstIndex = 3, indexCount = 6, materialIndex = 1\<rparr>]\<rparr>\<rparr>]\<rparr>,
      indexBuffer = [0, 1, 2, 3, 4, 5, 5, 4, 6],
      vertexBuffer = map plain_vertex
        [Vec3 0 0 0, Vec3 1 0 0, Vec3 0 1 0, Vec3 0 0 0, Vec3 1 0 0, Vec3 0 1 0, Vec3 1 1 0]\<rparr>"

text \<open>
  Three inputs: a primitive without POSITION; a node whose primitive has an index accessor
  of the component type 5126 (float), followed by a node with a triangle; and an animation
  channel that targets the node index 7 in a scene with a single node. Each comes with
  the state that loadglTFFile ends in.
\<close>

definition plain_node :: "int \<Rightarrow> gltf_Node" where
  "plain_node m =
     \<lparr>gltf_translation = [], gltf_rotation = [], gltf_scale = [], gltf_matrix = [],
      gltf_children = [], gltf_mesh = m\<rparr>"

definition no_position_primitive :: gltf_Primitive where
  "no_position_primitive =
     \<lparr>POSITION = None, NORMAL = None, TEXCOORD_0 = None,
      indices = UNSIGNED_SHORT [0, 1, 2], material = 0\<rparr>"

definition no_position_input :: gltf_Model where
  "no_position_input =
     \<lparr>gltf_nodes = [plain_node 0], gltf_meshes = [[no_position_primitive]],
      scene_nodes = [0], gltf_animations = []\<rparr>"

definition no_position_loaded :: loading where
  "no_position_loaded =
     \<lparr>model =
        \<lparr>heap = [newNode\<lparr>matrix := mat4_diag 1,
                   mesh := \<lparr>primitives =
                     [\<lparr>firstIndex = 0, indexCount = 3, materialIndex = 0\<rparr>]\<rparr>\<rparr>],
         nodes = [0], animations = [], linearMeshNodes = [0], activeAnimation = 0,
         console = []\<rparr>,
      indexBuffer = [0, 1, 2], vertexBuffer = []\<rparr>"

definition bad_index_primitive :: gltf_Primitive where
  "bad_index_primitive =
     \<lparr>POSITION = Some [Vec3 0 0 0], NORMAL = None, TEXCOORD_0 = None,
      indices = OtherComponentType 5126 3, material = 0\<rparr>"

definition bad_index_input :: gltf_Model where
  "bad_index_input =
     \<lparr>gltf_nodes = [plain_node 0, plain_node 1],
      gltf_meshes = [[bad_index_primitive], [triangle]],
      scene_nodes = [0, 1], gltf_animations = []\<rparr>"

definition bad_index_loaded :: loading where
  "bad_index_loaded =
     \<lparr>model =
        \<lparr>heap = [newNode\<lparr>matrix := mat4_diag 1\<rparr>,
                 newNode\<lparr>matrix := mat4_diag 1, index := 1,
                   mesh := \<lparr>primitives =
                     [\<lparr>firstIndex = 0, indexCount = 3, materialIndex = 0\<rparr>]\<rparr>\<rparr>],
         nodes = [1], animations = [], linearMeshNodes = [1], activeAnimation = 0,
         console = [IndexComponentTypeNotSupported 5126]\<rparr>,
      indexBuffer = [1, 2, 3],
      vertexBuffer = map plain_vertex [Vec3 0 0 0, Vec3 0 0 0, Vec3 1 0 0, Vec3 0 1 0]\<rparr>"

definition unresolved_channel :: gltf_AnimationChannel where
  "unresolved_channel = \<lparr>target_path = ''translation'', gltf_sampler = 0, target_node = 7\<rparr>"

definition unresolved_input :: gltf_Model where
  "unresolved_input =
     \<lparr>gltf_nodes = [plain_node (- 1)], gltf_meshes = [], scene_nodes = [0],
      gltf_animations =
        [\<lparr>gltf_name = ''a'',
          gltf_samplers =
            [\<lparr>gltf_interpolation = ''LINEAR'', gltf_input = [Fin 0, Fin 1],
              gltf_output = VEC3 [Vec3 0 0 0, Vec3 1 0 0]\<rparr>],
          gltf_channels = [unresolved_channel]\<rparr>]\<rparr>"

definition unresolved_loaded :: loading where
  "unresolved_loaded =
     \<lparr>model =
        \<lparr>heap = [newNode\<lparr>matrix := mat4_diag 1\<rparr>],
         nodes = [0],
         animations =
           [\<lparr>name = ''a'',
             samplers =
               [\<lparr>interpolation = ''LINEAR'', inputs = [Fin 0, Fin 1],
                 outputsVec4 = [Vec4 0 0 0 0, Vec4 1 0 0 0]\<rparr>],
             channels = [\<lparr>path = ''translation'', node = None, samplerIndex = 0\<rparr>],
             start = Fin 0, end' = Fin 1, currentTime = Fin 0\<rparr>],
         linearMeshNodes = [], activeAnimation = 0, console = []\<rparr>,
      indexBuffer = [], vertexBuffer = []\<rparr>"

text \<open>
  The states of the second load: before the first node is created, after it has been
  created, and when loadNode returns for it.
\<close>

definition empty_loading :: loading where
  "empty_loading = \<lparr>model = newModel, indexBuffer = [], vertexBuffer = []\<rparr>"

definition bad_index_created :: loading where
  "bad_index_created =
     empty_loading\<lparr>model := newModel\<lparr>heap := [createNode (plain_node 0) None 0]\<rparr>\<rparr>"

definition bad_index_returned :: loading where
  "bad_index_returned =
     bad_index_created
       \<lparr>vertexBuffer := [plain_vertex (Vec3 0 0 0)],
        model := (model bad_index_created)\<lparr>console := [IndexComponentTypeNotSupported 5126]\<rparr>\<rparr>"

definition unresolved_before_channels :: Animation where
  "unresolved_before_channels =
     (animations (model unresolved_loaded) ! 0)\<lparr>channels := [newChannel]\<rparr>"

text \<open>
  The state of the loader holds a forest: its store is a forest and its root nodes are
  nodes of the store.
\<close>

definition forest_state :: "loading \<Rightarrow> bool" where
  "forest_state s =
     (tree_store (heap (model s)) \<and> set (nodes (model s)) \<subseteq> {..<length (heap (model s))})"

text \<open>From the state \<open>s\<close> to the state \<open>s'\<close> the store and the two buffers have only grown.\<close>

definition grows :: "loading \<Rightarrow> loading \<Rightarrow> bool" where
  "grows s s' =
     (length (heap (model s)) \<le> length (heap (model s'))
      \<and> (\<exists>is. indexBuffer s' = indexBuffer s @ is)
      \<and> (\<exists>vs. vertexBuffer s' = vertexBuffer s @ vs))"

section \<open>Evaluation rules for scalars\<close>

lemma float_numerals:
  "(0::float) = Fin 0" "(1::float) = Fin 1"
  by (simp_all add: zero_float_def one_float_def)

lemma float_minus: "Fin a - Fin b = Fin (a - b)"
  by (simp add: minus_float_def)

section \<open>The local matrix of a node\<close>

lemma glm_mat4_cast_identity: "glm_mat4_cast (Quat 0 0 0 1) = mat4_diag 1"
  by (simp add: glm_mat4_cast_def mat4_diag_def Let_def float_numerals float_minus)

lemma glm_mat4_cast_zero: "glm_mat4_cast (Quat 0 0 0 0) = mat4_diag 1"
  by (simp add: glm_mat4_cast_def mat4_diag_def Let_def float_numerals float_minus)

lemma glm_translate_zero: "glm_translate (mat4_diag 1) (Vec3 0 0 0) = mat4_diag 1"
  by (simp add: mat4_diag_def float_numerals)

lemma glm_scale_one: "glm_scale (mat4_diag 1) (Vec3 1 1 1) = mat4_diag 1"
  by (simp add: mat4_diag_def float_numerals)

lemma mat4_diag_one_times: "mat4_diag 1 * mat4_diag 1 = mat4_diag 1"
  by (simp add: mat4_diag_def float_numerals)

lemma scaled_then_translated:
  "mat4_apply
     (glm_translate (mat4_diag 1) (Vec3 (Fin 1) (Fin 0) (Fin 0)) * mat4_diag 1
        * glm_scale (mat4_diag 1) (Vec3 (Fin 2) (Fin 2) (Fin 2)) * mat4_diag 1)
     (Vec4 (Fin 1) (Fin 1) (Fin 1) (Fin 1)) = Vec4 (Fin 3) (Fin 2) (Fin 2) (Fin 1)"
  by (simp add: mat4_diag_def float_numerals)

text \<open>
  C3. The local matrix of a node is
  \<open>translate(translation) * rotate(rotation) * scale(scale) * rawMatrix\<close>, multiplied
  from left to right in that order; for a node with zero translation, identity rotation,
  unit scale and the identity as raw matrix it is the identity matrix. The order shows on
  a node that scales by 2 and translates by \<open>(1,0,0)\<close>: the point \<open>(1,1,1)\<close> is scaled first
  and then translated, to \<open>(3,2,2)\<close>.
\<close>

theorem getLocalMatrix_composition:
  "getLocalMatrix n =
     ((glm_translate (mat4_diag 1) (translation n) * glm_mat4_cast (rotation n))
        * glm_scale (mat4_diag 1) (scale n)) * matrix n
   \<and> getLocalMatrix
        (n\<lparr>translation := Vec3 0 0 0, rotation := Quat 0 0 0 1, scale := Vec3 1 1 1,
           matrix := mat4_diag 1\<rparr>) = mat4_diag 1
   \<and> mat4_apply
        (getLocalMatrix
           (n\<lparr>translation := Vec3 (Fin 1) (Fin 0) (Fin 0), rotation := Quat 0 0 0 1,
              scale := Vec3 (Fin 2) (Fin 2) (Fin 2), matrix := mat4_diag 1\<rparr>))
        (Vec4 (Fin 1) (Fin 1) (Fin 1) (Fin 1)) = Vec4 (Fin 3) (Fin 2) (Fin 2) (Fin 1)"
  by (simp add: getLocalMatrix_def glm_mat4_cast_identity glm_translate_zero glm_scale_one
      mat4_diag_one_times scaled_then_translated)

section \<open>The world matrix\<close>

lemma getNodeMatrix_loop_None: "getNodeMatrix_loop h None m = Some (Ok m)"
  by (subst getNodeMatrix_loop.simps) simp

lemma getNodeMatrix_loop_Some:
  "p < length h \<Longrightarrow>
   getNodeMatrix_loop h (Some p) m =
     getNodeMatrix_loop h (parent (h ! p)) (getLocalMatrix (h ! p) * m)"
  by (subst getNodeMatrix_loop.simps) simp

lemma getNodeMatrix_loop_ancestors:
  "ancestors h cur ps \<Longrightarrow>
   getNodeMatrix_loop h cur m =
     Some (Ok (foldl (\<lambda>m p. getLocalMatrix (h ! p) * m) m ps))"
  by (induction arbitrary: m rule: ancestors.induct)
     (simp_all add: getNodeMatrix_loop_None getNodeMatrix_loop_Some)

lemma getLocalMatrix_translating:
  "getLocalMatrix (translating q (Vec3 (Fin a) (Fin b) (Fin c))) =
     Mat4 (Vec4 1 0 0 0) (Vec4 0 1 0 0) (Vec4 0 0 1 0) (Vec4 (Fin a) (Fin b) (Fin c) 1)"
proof -
  have "getLocalMatrix (translating q (Vec3 (Fin a) (Fin b) (Fin c))) =
      glm_translate (mat4_diag 1) (Vec3 (Fin a) (Fin b) (Fin c)) * mat4_diag 1
        * mat4_diag 1 * mat4_diag 1"
    by (simp add: getLocalMatrix_def translating_def newNode_def glm_mat4_cast_identity
        glm_scale_one)
  then show ?thesis
    by (simp add: mat4_diag_def float_numerals)
qed

lemma ancestors_chain3: "ancestors chain3 (parent (chain3 ! 2)) [1, 0]"
proof -
  have p2: "parent (chain3 ! 2) = Some 1" and p1: "parent (chain3 ! 1) = Some 0"
    and p0: "parent (chain3 ! 0) = None"
    by (simp_all add: chain3_def translating_def newNode_def)
  have "ancestors chain3 (parent (chain3 ! 0)) []"
    unfolding p0 by (rule ancestors.root)
  then have "ancestors chain3 (Some 0) [0]"
    by (rule ancestors.step [rotated]) (simp add: chain3_def)
  then have "ancestors chain3 (parent (chain3 ! 1)) [0]"
    unfolding p1 .
  then have "ancestors chain3 (Some 1) [1, 0]"
    by (rule ancestors.step [rotated]) (simp add: chain3_def)
  then show ?thesis
    unfolding p2 .
qed

lemma chain3_product:
  "foldl (\<lambda>m p. getLocalMatrix (chain3 ! p) * m) (getLocalMatrix (chain3 ! 2)) [1, 0] =
     Mat4 (Vec4 1 0 0 0) (Vec4 0 1 0 0) (Vec4 0 0 1 0) (Vec4 1 1 1 1)"
proof -
  have l0: "getLocalMatrix (chain3 ! 0) =
      Mat4 (Vec4 1 0 0 0) (Vec4 0 1 0 0) (Vec4 0 0 1 0) (Vec4 1 0 0 1)"
    and l1: "getLocalMatrix (chain3 ! 1) =
      Mat4 (Vec4 1 0 0 0) (Vec4 0 1 0 0) (Vec4 0 0 1 0) (Vec4 0 1 0 1)"
    and l2: "getLocalMatrix (chain3 ! 2) =
      Mat4 (Vec4 1 0 0 0) (Vec4 0 1 0 0) (Vec4 0 0 1 0) (Vec4 0 0 1 1)"
    using getLocalMatrix_translating [of None 1 0 0]
      getLocalMatrix_translating [of "Some 0" 0 1 0]
      getLocalMatrix_translating [of "Some 1" 0 0 1]
    by (simp_all add: chain3_def float_numerals)
  have "foldl (\<lambda>m p. getLocalMatrix (chain3 ! p) * m) (getLocalMatrix (chain3 ! 2)) [1, 0] =
      getLocalMatrix (chain3 ! 0) * (getLocalMatrix (chain3 ! 1) * getLocalMatrix (chain3 ! 2))"
    by simp
  also have "\<dots> = Mat4 (Vec4 1 0 0 0) (Vec4 0 1 0 0) (Vec4 0 0 1 0) (Vec4 1 1 1 1)"
    unfolding l0 l1 l2 by (simp add: float_numerals)
  finally show ?thesis .
qed

text \<open>
  C4. When the parent pointers of a node lead through the ancestors \<open>ps\<close> (nearest first)
  to the root, getNodeMatrix returns the node's local matrix multiplied on the left by the
  local matrix of each ancestor in turn, the root's last and outermost. For the chain
  root, child, grandchild translating by \<open>(1,0,0)\<close>, \<open>(0,1,0)\<close>, \<open>(0,0,1)\<close> the world
  matrix of the grandchild maps the origin to \<open>(1,1,1)\<close>.
\<close>

theorem getNodeMatrix_world:
  assumes "n < length h" and "ancestors h (parent (h ! n)) ps"
  shows "getNodeMatrix h n =
           Some (Ok (foldl (\<lambda>m p. getLocalMatrix (h ! p) * m) (getLocalMatrix (h ! n)) ps))
         \<and> (\<exists>m. getNodeMatrix chain3 2 = Some (Ok m)
                \<and> mat4_apply m (Vec4 0 0 0 1) = Vec4 1 1 1 1)"
proof
  show "getNodeMatrix h n =
      Some (Ok (foldl (\<lambda>m p. getLocalMatrix (h ! p) * m) (getLocalMatrix (h ! n)) ps))"
    using assms by (simp add: getNodeMatrix_def getNodeMatrix_loop_ancestors)
  have "getNodeMatrix chain3 2 =
      Some (Ok (Mat4 (Vec4 1 0 0 0) (Vec4 0 1 0 0) (Vec4 0 0 1 0) (Vec4 1 1 1 1)))"
    unfolding getNodeMatrix_def getNodeMatrix_loop_ancestors [OF ancestors_chain3]
      chain3_product
    by (simp add: chain3_def)
  then show "\<exists>m. getNodeMatrix chain3 2 = Some (Ok m)
      \<and> mat4_apply m (Vec4 0 0 0 1) = Vec4 1 1 1 1"
    by (simp add: float_numerals)
qed

theorem getNodeMatrix_world_witness:
  "2 < length chain3 \<and> ancestors chain3 (parent (chain3 ! 2)) [1, 0]
   \<and> getNodeMatrix chain3 2 =
       Some (Ok (Mat4 (Vec4 1 0 0 0) (Vec4 0 1 0 0) (Vec4 0 0 1 0) (Vec4 1 1 1 1)))"
proof -
  have len: "2 < length chain3"
    by (simp add: chain3_def)
  from getNodeMatrix_world [OF len ancestors_chain3]
  have "getNodeMatrix chain3 2 =
      Some (Ok (Mat4 (Vec4 1 0 0 0) (Vec4 0 1 0 0) (Vec4 0 0 1 0) (Vec4 1 1 1 1)))"
    unfolding chain3_product by (rule conjunct1)
  with len ancestors_chain3 show ?thesis
    by (intro conjI)
qed

section \<open>The animation tick\<close>

lemma rbind_Ok_iff: "rbind r f = Ok y \<longleftrightarrow> (\<exists>x. r = Ok x \<and> f x = Ok y)"
  by (cases r) simp_all

lemma currentTime_advance:
  "currentTime (advance fp deltaTime a) =
     (if fadd fp (currentTime a) deltaTime > end' a
      then fsub fp (fadd fp (currentTime a) deltaTime) (end' a)
      else fadd fp (currentTime a) deltaTime)"
  by (simp add: advance_def Let_def)

text \<open>
  A sum that rounds to the end is not wrapped: in binary32 \<open>1 + 2\<^sup>-\<^sup>2\<^sup>5\<close> is \<open>1\<close>, and with
  the end \<open>1\<close> the current time stays \<open>1\<close>.
\<close>

lemma advance_rounded_sum:
  assumes "fadd fp (Fin 1) (Fin (1 / 2 ^ 25)) = Fin 1"
    and "currentTime a = Fin 1" and "end' a = Fin 1"
  shows "currentTime (advance fp (Fin (1 / 2 ^ 25)) a) = Fin 1"
  using assms by (simp add: currentTime_advance)

lemma loop_bound_two: "loop_bound \<lparr>interpolation = i, inputs = [a, b], outputsVec4 = os\<rparr> = 1"
  by (simp add: loop_bound_def)

lemma loop_bound_empty: "0 < loop_bound \<lparr>interpolation = i, inputs = [], outputsVec4 = os\<rparr>"
  by (simp add: loop_bound_def unat_gt_0)

text \<open>
  The tick of \<open>1.5\<close> on the example, for every arithmetic that computes \<open>0.0 + 1.5\<close> and
  \<open>1.5 - 1.0\<close> exactly, as binary32 does: both results are binary32 values.
\<close>

lemma wrap_example_tick_any:
  assumes "fadd fp (Fin 0) (Fin (3 / 2)) = Fin (3 / 2)"
    and "fsub fp (Fin (3 / 2)) (Fin 1) = Fin (1 / 2)"
  shows "updateAnimation fp (Fin (3 / 2)) wrap_example =
     Ok (wrap_example
          \<lparr>heap := [newNode\<lparr>translation := vec3_of_vec4
                     (glm_mix fp (Vec4 0 0 0 0) (Vec4 (Fin 2) 0 0 0)
                        (fdiv fp (fsub fp (Fin (1 / 2)) (Fin 0)) (fsub fp (Fin 1) (Fin 0))))\<rparr>],
           animations := [(animations wrap_example ! 0)\<lparr>currentTime := Fin (1 / 2)\<rparr>]\<rparr>)"
  using assms
  by (simp add: updateAnimation_def wrap_example_def subscript_def advance_def Let_def
      keyframes.simps loop_bound_two keyframe_def interpolate_def assign_def)

lemma wrap_example_tick:
  "updateAnimation exact_arithmetic (Fin (3 / 2)) wrap_example =
     Ok (wrap_example
          \<lparr>heap := [newNode\<lparr>translation := Vec3 (Fin 1) (Fin 0) (Fin 0)\<rparr>],
           animations := [(animations wrap_example ! 0)\<lparr>currentTime := Fin (1 / 2)\<rparr>]\<rparr>)"
  by (simp add: updateAnimation_def wrap_example_def subscript_def advance_def Let_def
      keyframes.simps loop_bound_two keyframe_def interpolate_def assign_def float_minus mix_def
      float_numerals exact_arithmetic_def)

text \<open>
  C1. A tick that reaches the selected animation and returns has first added \<open>deltaTime\<close>
  to the current time and then, when the sum is greater than the end, subtracted the end
  once (the end, not the span from start to end); the sum and the difference are the
  machine's, rounded as the machine rounds them. With the input times \<open>[0.0, 1.0]\<close>, the
  end \<open>1.0\<close> and the current time \<open>0.0\<close>, a tick of \<open>1.5\<close> gives the current time \<open>0.5\<close>,
  for every arithmetic that computes \<open>0.0 + 1.5\<close> and \<open>1.5 - 1.0\<close> exactly, as binary32
  does.
\<close>

theorem updateAnimation_currentTime:
  assumes "updateAnimation fp deltaTime m = Ok m'"
    and "\<not> activeAnimation m > of_nat (length (animations m)) - 1"
  shows "(\<exists>a. subscript (animations m) (unat (activeAnimation m)) = Ok a
            \<and> currentTime (animations m' ! unat (activeAnimation m)) =
                (if fadd fp (currentTime a) deltaTime > end' a
                 then fsub fp (fadd fp (currentTime a) deltaTime) (end' a)
                 else fadd fp (currentTime a) deltaTime))
         \<and> (fadd fp (Fin 0) (Fin (3 / 2)) = Fin (3 / 2)
              \<and> fsub fp (Fin (3 / 2)) (Fin 1) = Fin (1 / 2) \<longrightarrow>
             (\<exists>m1. updateAnimation fp (Fin (3 / 2)) wrap_example = Ok m1
                \<and> currentTime (animations m1 ! 0) = Fin (1 / 2)))"
proof
  from assms obtain a h out where
    a: "subscript (animations m) (unat (activeAnimation m)) = Ok a"
    and m': "m' = m\<lparr>heap := h,
               animations := (animations m)[unat (activeAnimation m) := advance fp deltaTime a],
               console := out\<rparr>"
    by (auto simp: updateAnimation_def rbind_Ok_iff Let_def)
  from a have "unat (activeAnimation m) < length (animations m)"
    by (simp add: subscript_def split: if_splits)
  then have "currentTime (animations m' ! unat (activeAnimation m)) =
      currentTime (advance fp deltaTime a)"
    by (simp add: m')
  with a show "\<exists>a. subscript (animations m) (unat (activeAnimation m)) = Ok a
            \<and> currentTime (animations m' ! unat (activeAnimation m)) =
                (if fadd fp (currentTime a) deltaTime > end' a
                 then fsub fp (fadd fp (currentTime a) deltaTime) (end' a)
                 else fadd fp (currentTime a) deltaTime)"
    by (simp add: currentTime_advance)
  show "fadd fp (Fin 0) (Fin (3 / 2)) = Fin (3 / 2)
      \<and> fsub fp (Fin (3 / 2)) (Fin 1) = Fin (1 / 2) \<longrightarrow>
      (\<exists>m1. updateAnimation fp (Fin (3 / 2)) wrap_example = Ok m1
         \<and> currentTime (animations m1 ! 0) = Fin (1 / 2))"
    by (auto simp: wrap_example_tick_any)
qed

theorem updateAnimation_currentTime_witness:
  "updateAnimation exact_arithmetic (Fin (3 / 2)) wrap_example =
     Ok (wrap_example
          \<lparr>heap := [newNode\<lparr>translation := Vec3 (Fin 1) (Fin 0) (Fin 0)\<rparr>],
           animations := [(animations wrap_example ! 0)\<lparr>currentTime := Fin (1 / 2)\<rparr>]\<rparr>)
   \<and> \<not> activeAnimation wrap_example > of_nat (length (animations wrap_example)) - 1
   \<and> fadd exact_arithmetic (Fin 0) (Fin (3 / 2)) = Fin (3 / 2)
   \<and> fsub exact_arithmetic (Fin (3 / 2)) (Fin 1) = Fin (1 / 2)
   \<and> currentTime
        (animations
           (wrap_example
              \<lparr>heap := [newNode\<lparr>translation := Vec3 (Fin 1) (Fin 0) (Fin 0)\<rparr>],
               animations := [(animations wrap_example ! 0)\<lparr>currentTime := Fin (1 / 2)\<rparr>]\<rparr>)
         ! unat (activeAnimation wrap_example)) = Fin (1 / 2)"
proof -
  have guard: "\<not> activeAnimation wrap_example > of_nat (length (animations wrap_example)) - 1"
    by (simp add: wrap_example_def)
  have exact: "fadd exact_arithmetic (Fin 0) (Fin (3 / 2)) = Fin (3 / 2)"
    "fsub exact_arithmetic (Fin (3 / 2)) (Fin 1) = Fin (1 / 2)"
    by (simp_all add: exact_arithmetic_def float_minus)
  from updateAnimation_currentTime [OF wrap_example_tick guard]
  have "currentTime
        (animations
           (wrap_example
              \<lparr>heap := [newNode\<lparr>translation := Vec3 (Fin 1) (Fin 0) (Fin 0)\<rparr>],
               animations := [(animations wrap_example ! 0)\<lparr>currentTime := Fin (1 / 2)\<rparr>]\<rparr>)
         ! unat (activeAnimation wrap_example)) = Fin (1 / 2)"
    by (simp add: wrap_example_def subscript_def float_minus exact_arithmetic_def)
  with guard exact wrap_example_tick show ?thesis
    by simp
qed

text \<open>
  C9. With an empty animation list the guard does not reject any selector: the bound
  \<^verbatim>\<open>static_cast<uint32_t>(animations.size()) - 1\<close> wraps around to \<open>2\<^sup>3\<^sup>2 - 1\<close>, and the
  tick subscripts the empty vector.
\<close>

theorem updateAnimation_no_animations:
  "updateAnimation fp deltaTime (m\<lparr>animations := []\<rparr>) = Undefined"
  by (simp add: updateAnimation_def subscript_def)

text \<open>
  With a non-empty animation list a selector past its end is rejected: the tick prints a
  line and changes nothing else.
\<close>

lemma updateAnimation_rejects:
  assumes "animations m \<noteq> []" and "length (animations m) < 2 ^ 32"
    and "length (animations m) \<le> unat (activeAnimation m)"
  shows "updateAnimation fp deltaTime m =
           Ok (m\<lparr>console := console m @ [NoAnimationWithIndex (activeAnimation m)]\<rparr>)"
proof -
  have "unat ((of_nat (length (animations m)) :: u32) - 1) = length (animations m) - 1"
    using assms(1,2) by (simp add: unat_sub word_le_nat_alt unat_of_nat Suc_le_eq)
  then have "activeAnimation m > (of_nat (length (animations m)) :: u32) - 1"
    using assms(1,3) by (cases "animations m") (simp_all add: word_less_nat_alt)
  then show ?thesis
    by (simp add: updateAnimation_def)
qed

text \<open>
  C6. For a LINEAR sampler without key frames the bound \<^verbatim>\<open>sampler.inputs.size() - 1\<close> of
  the loop wraps around, the loop is entered and reads \<^verbatim>\<open>sampler.inputs[0]\<close> of the empty
  vector.
\<close>

theorem updateAnimation_no_keyframes:
  "updateAnimation fp deltaTime no_keyframes_example = Undefined"
  by (simp add: updateAnimation_def no_keyframes_example_def subscript_def advance_def Let_def
      keyframes.simps loop_bound_empty keyframe_def)

lemma loop_bound_nonempty:
  "1 \<le> length (inputs sampler) \<Longrightarrow> length (inputs sampler) < 2 ^ 64 \<Longrightarrow>
   loop_bound sampler = length (inputs sampler) - 1"
  by (simp add: loop_bound_def unat_sub word_le_nat_alt unat_of_nat Suc_le_eq)

lemma keyframe_no_segment:
  assumes "i + 1 < length (inputs sampler)"
    and "\<not> (inputs sampler ! i \<le> t \<and> t \<le> inputs sampler ! (i + 1))"
  shows "keyframe fp t channel sampler i h = Ok h"
  using assms by (auto simp: keyframe_def subscript_def)

text \<open>
  A sampler with at least one key frame and no pair of adjacent key frames around the
  current time: the loop over its key frames leaves the store as it was (and prints only
  when the sampler is not LINEAR).
\<close>

lemma keyframes_no_segment:
  assumes "1 \<le> length (inputs sampler)" and "length (inputs sampler) < 2 ^ 64"
    and "\<And>j. j + 1 < length (inputs sampler) \<Longrightarrow>
           \<not> (inputs sampler ! j \<le> t \<and> t \<le> inputs sampler ! (j + 1))"
  shows "\<exists>out'. keyframes fp t channel sampler i (h, out) = Ok (h, out')"
proof (induction "loop_bound sampler - i" arbitrary: i out)
  case 0
  then show ?case
    by (simp add: keyframes.simps)
next
  case (Suc k)
  then have i: "i < loop_bound sampler" and k: "k = loop_bound sampler - (i + 1)"
    by simp_all
  from i have "i + 1 < length (inputs sampler)"
    using assms(1,2) by (simp add: loop_bound_nonempty)
  then have "keyframe fp t channel sampler i h = Ok h"
    using assms(3) by (intro keyframe_no_segment) auto
  with i Suc(1) [OF k] show ?case
    by (simp add: keyframes.simps [of _ _ _ _ i])
qed

section \<open>Finding a node by its index: correctness\<close>

lemma reaches_children:
  "reaches h a b \<longleftrightarrow> b = a \<or> (\<exists>c\<in>set (children (h ! a)). reaches h c b)"
proof
  assume "reaches h a b"
  then show "b = a \<or> (\<exists>c\<in>set (children (h ! a)). reaches h c b)"
    by (cases rule: reaches.cases) auto
next
  assume "b = a \<or> (\<exists>c\<in>set (children (h ! a)). reaches h c b)"
  then show "reaches h a b"
    by (auto intro: reaches.intros)
qed

lemma findNode_total:
  "tree_store h \<Longrightarrow> p < length h \<Longrightarrow> length h - p \<le> fuel \<Longrightarrow>
     \<exists>r. findNode fuel h p i = Some (Ok r) \<and> found h [p] i r"
  "tree_store h \<Longrightarrow> \<forall>c\<in>set cs. c < length h \<and> length h - c \<le> fuel \<Longrightarrow>
     \<exists>r. findNode_children fuel h cs i = Some (Ok r) \<and> found h cs i r"
proof (induction fuel h p i and fuel h cs i rule: findNode_findNode_children.induct)
  case (1 h p i)
  then show ?case by simp
next
  case (2 fuel h p i)
  show ?case
  proof (cases "index (h ! p) = i")
    case True
    with "2.prems"(2) show ?thesis
      by (auto simp: found_def intro: reaches.here)
  next
    case False
    have kids: "\<forall>c\<in>set (children (h ! p)). c < length h \<and> length h - c \<le> fuel"
    proof
      fix c assume "c \<in> set (children (h ! p))"
      with "2.prems"(1,2) have "p < c \<and> c < length h"
        unfolding tree_store_def by blast
      with "2.prems"(3) show "c < length h \<and> length h - c \<le> fuel"
        by arith
    qed
    from "2.IH" [OF "2.prems"(2) False "2.prems"(1) kids] obtain r where
      r: "findNode_children fuel h (children (h ! p)) i = Some (Ok r)"
        "found h (children (h ! p)) i r"
      by blast
    from r(2) False have "found h [p] i r"
      by (cases r) (auto simp: found_def reaches_children [of h p])
    with r(1) "2.prems"(2) False show ?thesis
      by simp
  qed
next
  case (3 fuel h i)
  then show ?case by (simp add: found_def)
next
  case (4 fuel h child cs i)
  from "4.prems"(2) have "child < length h" "length h - child \<le> fuel"
    by simp_all
  from "4.IH"(1) [OF "4.prems"(1) this] obtain r where
    r: "findNode fuel h child i = Some (Ok r)" "found h [child] i r"
    by blast
  show ?case
  proof (cases r)
    case None
    from "4.prems"(2) have "\<forall>c\<in>set cs. c < length h \<and> length h - c \<le> fuel"
      by simp
    from "4.IH"(2) [OF r(1) refl None "4.prems"(1) this] obtain r' where
      r': "findNode_children fuel h cs i = Some (Ok r')" "found h cs i r'"
      by blast
    from r(2) r'(2) None have "found h (child # cs) i r'"
      by (cases r') (auto simp: found_def)
    with r(1) r'(1) None show ?thesis
      by simp
  next
    case (Some b)
    with r show ?thesis
      by (auto simp: found_def)
  qed
qed

lemma nodeFromIndex_found:
  assumes "tree_store (heap m)" and "set (nodes m) \<subseteq> {..<length (heap m)}"
    and "length (heap m) \<le> fuel"
  shows "\<exists>r. nodeFromIndex fuel m i = Some (Ok r) \<and> found (heap m) (nodes m) i r"
proof -
  from assms(2,3) have "\<forall>c\<in>set (nodes m). c < length (heap m) \<and> length (heap m) - c \<le> fuel"
    by auto
  with assms(1) show ?thesis
    unfolding nodeFromIndex_def by (rule findNode_total(2))
qed

lemma tree_storeD:
  "tree_store h \<Longrightarrow> a < length h \<Longrightarrow> c \<in> set (children (h ! a)) \<Longrightarrow> a < c \<and> c < length h"
  unfolding tree_store_def by blast

lemma find_app:
  "find P (xs @ ys) = (case find P xs of None \<Rightarrow> find P ys | Some x \<Rightarrow> Some x)"
  by (induction xs) simp_all

lemma findNode_preorder:
  "\<forall>xs. preorder fuel h p = Some (Ok xs) \<longrightarrow>
     findNode fuel h p i = Some (Ok (find (\<lambda>b. index (h ! b) = i) xs))"
  "\<forall>xs. preorder_children fuel h cs = Some (Ok xs) \<longrightarrow>
     findNode_children fuel h cs i = Some (Ok (find (\<lambda>b. index (h ! b) = i) xs))"
proof (induction fuel h p i and fuel h cs i rule: findNode_findNode_children.induct)
  case (1 h p i)
  show ?case by simp
next
  case (2 fuel h p i)
  show ?case
  proof (intro allI impI)
    fix xs
    assume pre: "preorder (Suc fuel) h p = Some (Ok xs)"
    then have p: "p < length h"
      by (simp split: if_splits)
    with pre obtain ys where
      ys: "preorder_children fuel h (children (h ! p)) = Some (Ok ys)" and xs: "xs = p # ys"
      by (auto split: option.splits result.splits)
    show "findNode (Suc fuel) h p i = Some (Ok (find (\<lambda>b. index (h ! b) = i) xs))"
    proof (cases "index (h ! p) = i")
      case True
      with p xs show ?thesis by simp
    next
      case False
      from "2.IH" [OF p False, rule_format, OF ys] p False xs show ?thesis
        by simp
    qed
  qed
next
  case (3 fuel h i)
  show ?case by simp
next
  case (4 fuel h child cs i)
  show ?case
  proof (intro allI impI)
    fix xs
    assume pre: "preorder_children fuel h (child # cs) = Some (Ok xs)"
    then obtain ys zs where
      ys: "preorder fuel h child = Some (Ok ys)"
      and zs: "preorder_children fuel h cs = Some (Ok zs)" and xs: "xs = ys @ zs"
      by (auto split: option.splits result.splits)
    from "4.IH"(1) [rule_format, OF ys]
    have child: "findNode fuel h child i = Some (Ok (find (\<lambda>b. index (h ! b) = i) ys))" .
    show "findNode_children fuel h (child # cs) i =
        Some (Ok (find (\<lambda>b. index (h ! b) = i) xs))"
    proof (cases "find (\<lambda>b. index (h ! b) = i) ys")
      case None
      from "4.IH"(2) [OF child [unfolded None] refl refl, rule_format, OF zs] child None xs
      show ?thesis
        by (simp add: find_app)
    next
      case (Some b)
      with child xs show ?thesis
        by (simp add: find_app)
    qed
  qed
qed

lemma preorder_total:
  "tree_store h \<Longrightarrow> p < length h \<Longrightarrow> length h - p \<le> fuel \<Longrightarrow>
     \<exists>xs. preorder fuel h p = Some (Ok xs)"
  "tree_store h \<Longrightarrow> \<forall>c\<in>set cs. c < length h \<and> length h - c \<le> fuel \<Longrightarrow>
     \<exists>xs. preorder_children fuel h cs = Some (Ok xs)"
proof (induction fuel h p and fuel h cs rule: preorder_preorder_children.induct)
  case (1 h p)
  then show ?case by simp
next
  case (2 fuel h p)
  have kids: "\<forall>c\<in>set (children (h ! p)). c < length h \<and> length h - c \<le> fuel"
  proof
    fix c assume "c \<in> set (children (h ! p))"
    from tree_storeD [OF "2.prems"(1,2) this] "2.prems"(3)
    show "c < length h \<and> length h - c \<le> fuel"
      by arith
  qed
  from "2.IH" [OF "2.prems"(2,1) kids] "2.prems"(2) show ?case
    by auto
next
  case (3 fuel h)
  then show ?case by simp
next
  case (4 fuel h c cs)
  from "4.prems"(2) have c: "c < length h" "length h - c \<le> fuel"
    and cs: "\<forall>c\<in>set cs. c < length h \<and> length h - c \<le> fuel"
    by simp_all
  from "4.IH"(1) [OF "4.prems"(1) c] obtain xs where xs: "preorder fuel h c = Some (Ok xs)"
    by blast
  from "4.IH"(2) [OF xs refl "4.prems"(1) cs] xs show ?case
    by auto
qed

text \<open>
  C10. In a model whose store is a forest, with fuel for its depth, nodeFromIndex returns:
  a node of the forest with the index \<open>i\<close> whenever the forest has one, \<^verbatim>\<open>nullptr\<close> when
  it has none, and never a node with another index. It returns the first node with the
  index \<open>i\<close> in the order of the search: the roots in their order, below each root the
  node before its children.
\<close>

theorem nodeFromIndex_correct:
  assumes "tree_store (heap m)" and "set (nodes m) \<subseteq> {..<length (heap m)}"
    and "length (heap m) \<le> fuel"
  shows "((\<exists>b. in_forest m b \<and> index (heap m ! b) = i) \<longrightarrow>
            (\<exists>b. nodeFromIndex fuel m i = Some (Ok (Some b))
                 \<and> in_forest m b \<and> index (heap m ! b) = i))
         \<and> (\<not> (\<exists>b. in_forest m b \<and> index (heap m ! b) = i) \<longrightarrow>
              nodeFromIndex fuel m i = Some (Ok None))
         \<and> (\<forall>b. nodeFromIndex fuel m i = Some (Ok (Some b)) \<longrightarrow> index (heap m ! b) = i)
         \<and> (\<exists>xs. preorder_children fuel (heap m) (nodes m) = Some (Ok xs)
                \<and> nodeFromIndex fuel m i = Some (Ok (find (\<lambda>b. index (heap m ! b) = i) xs)))"
proof -
  from nodeFromIndex_found [OF assms] obtain r where
    r: "nodeFromIndex fuel m i = Some (Ok r)" "found (heap m) (nodes m) i r"
    by blast
  from assms(2,3) have "\<forall>c\<in>set (nodes m). c < length (heap m) \<and> length (heap m) - c \<le> fuel"
    by auto
  from preorder_total(2) [OF assms(1) this] obtain xs where
    xs: "preorder_children fuel (heap m) (nodes m) = Some (Ok xs)"
    by blast
  from findNode_preorder(2) [rule_format, OF xs]
  have order: "\<exists>xs. preorder_children fuel (heap m) (nodes m) = Some (Ok xs)
      \<and> nodeFromIndex fuel m i = Some (Ok (find (\<lambda>b. index (heap m ! b) = i) xs))"
    using xs by (simp add: nodeFromIndex_def)
  have "((\<exists>b. in_forest m b \<and> index (heap m ! b) = i) \<longrightarrow>
            (\<exists>b. nodeFromIndex fuel m i = Some (Ok (Some b))
                 \<and> in_forest m b \<and> index (heap m ! b) = i))
         \<and> (\<not> (\<exists>b. in_forest m b \<and> index (heap m ! b) = i) \<longrightarrow>
              nodeFromIndex fuel m i = Some (Ok None))
         \<and> (\<forall>b. nodeFromIndex fuel m i = Some (Ok (Some b)) \<longrightarrow> index (heap m ! b) = i)"
  proof (cases r)
    case None
    with r show ?thesis
      by (auto simp: found_def in_forest_def)
  next
    case (Some b)
    with r show ?thesis
      by (auto simp: found_def in_forest_def)
  qed
  with order show ?thesis
    by blast
qed

lemma tree_store_forest_example: "tree_store (heap forest_example)"
  by (simp add: tree_store_def forest_example_def newNode_def less_Suc_eq numeral_3_eq_3)

lemma nodeFromIndex_forest_example:
  "nodeFromIndex (Suc (Suc (Suc 0))) forest_example 9 = Some (Ok (Some 2))"
  by (simp add: nodeFromIndex_def forest_example_def newNode_def)

theorem nodeFromIndex_correct_witness:
  "tree_store (heap forest_example)
   \<and> set (nodes forest_example) \<subseteq> {..<length (heap forest_example)}
   \<and> length (heap forest_example) \<le> Suc (Suc (Suc 0))
   \<and> nodeFromIndex (Suc (Suc (Suc 0))) forest_example 9 = Some (Ok (Some 2))
   \<and> index (heap forest_example ! 2) = 9
   \<and> nodeFromIndex (Suc (Suc (Suc 0))) forest_example 6 = Some (Ok None)
   \<and> preorder_children (Suc (Suc (Suc 0))) (heap forest_example) (nodes forest_example) =
       Some (Ok [0, 1, 2])"
proof -
  have roots: "set (nodes forest_example) \<subseteq> {..<length (heap forest_example)}"
    and len: "length (heap forest_example) \<le> Suc (Suc (Suc 0))"
    by (simp_all add: forest_example_def)
  note c10 = nodeFromIndex_correct [OF tree_store_forest_example roots len]
  from c10 [of 9] have "index (heap forest_example ! 2) = 9"
    by (simp add: nodeFromIndex_forest_example)
  moreover have "nodeFromIndex (Suc (Suc (Suc 0))) forest_example 6 = Some (Ok None)"
    by (simp add: nodeFromIndex_def forest_example_def newNode_def)
  moreover have "preorder_children (Suc (Suc (Suc 0))) (heap forest_example)
      (nodes forest_example) = Some (Ok [0, 1, 2])"
    by (simp add: forest_example_def newNode_def)
  ultimately show ?thesis
    using tree_store_forest_example roots len nodeFromIndex_forest_example by simp
qed

section \<open>The loader\<close>

lemma FLT_MIN_positive: "Fin 0 < FLT_MIN" "FLT_MIN \<noteq> Fin 0" "\<not> FLT_MIN < Fin 0"
  by (simp_all add: FLT_MIN_def)

lemma FLT_MAX_positive: "Fin 0 < FLT_MAX"
proof -
  have "(0::real) < (2 - 1 / 2 ^ 23) * 2 ^ 127"
    by (intro mult_pos_pos) simp_all
  then show ?thesis
    by (simp add: FLT_MAX_def)
qed

text \<open>
  C8. The end of a new animation is \<^verbatim>\<open>std::numeric_limits<float>::min()\<close>, the smallest
  positive normal value, and an input time replaces it only when it is greater. For an
  animation whose only key frame is at \<open>0.0\<close> the start becomes \<open>0.0\<close>, the minimum, but the
  end stays \<open>2\<^sup>-\<^sup>1\<^sup>2\<^sup>6\<close> and is not the maximum \<open>0.0\<close>.
\<close>

theorem loadAnimations_single_keyframe:
  "\<exists>m. loadAnimations 0 single_keyframe_input newModel = Some (Ok m)
       \<and> inputs (samplers (animations m ! 0) ! 0) = [Fin 0]
       \<and> start (animations m ! 0) = Fin 0
       \<and> end' (animations m ! 0) = FLT_MIN
       \<and> FLT_MIN \<noteq> Fin 0"
  using FLT_MAX_positive
  by (simp add: loadAnimations_def single_keyframe_input_def newModel_def resize_def
      loadAnimation_def subscript_def newAnimation_def newSampler_def loadSampler_def
      FLT_MIN_positive Let_def)

text \<open>
  What the loop computes on finite input times: the minimum of the times and the old
  start, and the maximum of the times and the old end.
\<close>

lemma adjust_Fin:
  "start a = Fin s \<Longrightarrow> end' a = Fin e \<Longrightarrow>
   start (adjust (map Fin xs) a) = Fin (fold min xs s)
   \<and> end' (adjust (map Fin xs) a) = Fin (fold max xs e)"
proof (induction xs arbitrary: a s e)
  case Nil
  then show ?case by simp
next
  case (Cons x xs)
  let ?a1 = "if Fin x < start a then a\<lparr>start := Fin x\<rparr> else a"
  let ?a2 = "if Fin x > end' ?a1 then ?a1\<lparr>end' := Fin x\<rparr> else ?a1"
  have "start ?a2 = Fin (min x s)" "end' ?a2 = Fin (max x e)"
    using Cons.prems by (auto simp: min_def max_def)
  from Cons.IH [OF this] show ?case
    by (simp add: Let_def)
qed

lemma glm_normalize_zero: "glm_normalize (Vec3 0 0 0) = Vec3 NaN NaN NaN"
  by (simp add: glm_normalize_def inversesqrt_def float_numerals)

lemma makeVertex_no_normal:
  "NORMAL p = None \<Longrightarrow> makeVertex p positionBuffer v = Ok vert \<Longrightarrow>
   normal vert = Vec3 NaN NaN NaN"
  by (auto simp: makeVertex_def rbind_Ok_iff glm_normalize_zero)

text \<open>
  C7. The default normal \<open>(0,0,0)\<close> of a primitive without NORMAL is passed to
  \<^verbatim>\<open>glm::normalize\<close> like any other: the vertex gets the normal \<open>0 * (1 / sqrt 0)\<close>, NaN in
  each component.
\<close>

theorem loadVertices_no_normal:
  "loadVertices no_normal_primitive =
     Ok [\<lparr>pos = Vec3 (Fin 1) (Fin 2) (Fin 3), normal = Vec3 NaN NaN NaN, uv = Vec2 0 0,
          color = Vec3 1 1 1\<rparr>]"
  by (simp add: loadVertices_def no_normal_primitive_def makeVertex_def subscript_def
      glm_normalize_zero)

lemma offset_widen:
  "map (\<lambda>x. ucast x + v) buf = map (\<lambda>i. i + v) (map ucast buf)"
  by simp

lemma loadPrimitive_Continue:
  assumes "loadPrimitive p nodeAddr s = Ok (Continue s')"
  shows "\<exists>vs. loadVertices p = Ok vs \<and> supported (indices p)
           \<and> nodeAddr < length (heap (model s))
           \<and> s' = s\<lparr>vertexBuffer := vertexBuffer s @ vs,
                    indexBuffer := indexBuffer s
                      @ map (\<lambda>i. i + of_nat (length (vertexBuffer s))) (widen (indices p)),
                    model := (model s)\<lparr>heap := (heap (model s))
                      [nodeAddr := (heap (model s) ! nodeAddr)
                         \<lparr>mesh := \<lparr>primitives = primitives (mesh (heap (model s) ! nodeAddr))
                            @ [\<lparr>firstIndex = of_nat (length (indexBuffer s)),
                                indexCount = of_nat (length (widen (indices p))),
                                materialIndex = material p\<rparr>]\<rparr>\<rparr>]\<rparr>\<rparr>"
proof -
  from assms obtain vs where vs: "loadVertices p = Ok vs"
    by (auto simp: loadPrimitive_def Let_def rbind_Ok_iff)
  show ?thesis
  proof (cases "indices p")
    case (UNSIGNED_INT buf)
    with assms vs show ?thesis
      by (auto simp: loadPrimitive_def pushPrimitive_def assign_def Let_def rbind_Ok_iff
          split: if_splits)
  next
    case (UNSIGNED_SHORT buf)
    with assms vs show ?thesis
      by (auto simp: loadPrimitive_def pushPrimitive_def assign_def Let_def rbind_Ok_iff
          split: if_splits)
  next
    case (UNSIGNED_BYTE buf)
    with assms vs show ?thesis
      by (auto simp: loadPrimitive_def pushPrimitive_def assign_def Let_def rbind_Ok_iff
          split: if_splits)
  next
    case (OtherComponentType t n)
    with assms vs show ?thesis
      by (simp add: loadPrimitive_def Let_def)
  qed
qed

lemma take_drop_append_exact:
  "take (length ys) (drop (length xs) ((xs @ ys) @ zs)) = ys"
  by simp

lemma unat_add_no_overflow:
  fixes a :: u32
  shows "unat a + n < 2 ^ 32 \<Longrightarrow> unat (a + of_nat n) = unat a + n"
  by (simp add: unat_word_ariths unat_of_nat)

text \<open>
  C2. When a primitive is appended after any others (the state \<open>s\<close> holds what they
  appended), the indices it appends to the global index buffer are its source indices,
  widened to 32 bits, plus the number of vertices in the global vertex buffer before its
  own vertices were appended (the sum is taken in \<^verbatim>\<open>uint32_t\<close>; it is the sum of the numbers
  when that fits 32 bits). Subtracting this vertex start from them gives the source indices
  back, and the first index and the index count recorded for the primitive are exactly its
  slice of the global index buffer, whatever is appended later.
\<close>

theorem loadPrimitive_index_offsetting:
  assumes "loadPrimitive p nodeAddr s = Ok (Continue s')"
    and "length (indexBuffer s') < 2 ^ 32"
  shows "indexBuffer s' =
           indexBuffer s @ map (\<lambda>i. i + of_nat (length (vertexBuffer s))) (widen (indices p))
         \<and> (\<forall>k<length (widen (indices p)).
              unat (widen (indices p) ! k) + length (vertexBuffer s) < 2 ^ 32 \<longrightarrow>
              unat (indexBuffer s' ! (length (indexBuffer s) + k)) =
                unat (widen (indices p) ! k) + length (vertexBuffer s))
         \<and> map (\<lambda>g. g - of_nat (length (vertexBuffer s)))
              (drop (length (indexBuffer s)) (indexBuffer s')) = widen (indices p)
         \<and> (\<exists>primitive.
              primitives (mesh (heap (model s') ! nodeAddr)) =
                primitives (mesh (heap (model s) ! nodeAddr)) @ [primitive]
              \<and> unat (firstIndex primitive) = length (indexBuffer s)
              \<and> unat (indexCount primitive) = length (widen (indices p))
              \<and> (\<forall>later.
                   take (unat (indexCount primitive))
                     (drop (unat (firstIndex primitive)) (indexBuffer s' @ later)) =
                   map (\<lambda>i. i + of_nat (length (vertexBuffer s))) (widen (indices p))))"
proof -
  let ?v = "of_nat (length (vertexBuffer s)) :: u32"
  let ?src = "widen (indices p)"
  let ?prim = "\<lparr>firstIndex = of_nat (length (indexBuffer s)),
                indexCount = of_nat (length ?src), materialIndex = material p\<rparr>"
  from loadPrimitive_Continue [OF assms(1)] obtain vs where
    a: "nodeAddr < length (heap (model s))"
    and ib: "indexBuffer s' = indexBuffer s @ map (\<lambda>i. i + ?v) ?src"
    and prims: "primitives (mesh (heap (model s') ! nodeAddr)) =
        primitives (mesh (heap (model s) ! nodeAddr)) @ [?prim]"
    by auto
  from assms(2) ib have small: "length (indexBuffer s) < 2 ^ 32" "length ?src < 2 ^ 32"
    by simp_all
  have first: "unat (firstIndex ?prim) = length (indexBuffer s)"
    and count: "unat (indexCount ?prim) = length ?src"
    using small by (simp_all add: unat_of_nat)
  have nat_level: "\<forall>k<length ?src.
      unat (?src ! k) + length (vertexBuffer s) < 2 ^ 32 \<longrightarrow>
      unat (indexBuffer s' ! (length (indexBuffer s) + k)) =
        unat (?src ! k) + length (vertexBuffer s)"
    by (simp add: ib unat_add_no_overflow)
  have roundtrip: "map (\<lambda>g. g - ?v) (drop (length (indexBuffer s)) (indexBuffer s')) = ?src"
    by (simp add: ib comp_def)
  have slice: "\<forall>later. take (unat (indexCount ?prim))
      (drop (unat (firstIndex ?prim)) (indexBuffer s' @ later)) = map (\<lambda>i. i + ?v) ?src"
    unfolding first count ib using take_drop_append_exact [of "map (\<lambda>i. i + ?v) ?src"]
    by simp
  from ib nat_level roundtrip prims first count slice show ?thesis
    by blast
qed

lemma loadVertices_triangle:
  "loadVertices triangle = Ok (map plain_vertex [Vec3 0 0 0, Vec3 1 0 0, Vec3 0 1 0])"
  by (simp add: loadVertices_def triangle_def makeVertex_def subscript_def
      glm_normalize_zero plain_vertex_def upt_rec [of 0] upt_rec [of "Suc 0"] upt_rec [of 2])

lemma loadVertices_quad:
  "loadVertices quad =
     Ok (map plain_vertex [Vec3 0 0 0, Vec3 1 0 0, Vec3 0 1 0, Vec3 1 1 0])"
  by (simp add: loadVertices_def quad_def makeVertex_def subscript_def
      glm_normalize_zero plain_vertex_def upt_rec [of 0] upt_rec [of "Suc 0"] upt_rec [of 2]
      upt_rec [of 3])

lemma loadPrimitive_triangle: "loadPrimitive triangle 0 one_node = Ok (Continue after_triangle)"
  by (simp add: loadPrimitive_def loadVertices_triangle Let_def)
     (simp add: triangle_def one_node_def pushPrimitive_def assign_def after_triangle_def
        newModel_def newNode_def)

lemma loadPrimitive_quad: "loadPrimitive quad 0 after_triangle = Ok (Continue after_quad)"
  by (simp add: loadPrimitive_def loadVertices_quad Let_def)
     (simp add: quad_def after_triangle_def pushPrimitive_def assign_def after_quad_def
        newModel_def newNode_def)

theorem loadPrimitive_index_offsetting_witness:
  "loadPrimitive quad 0 after_triangle = Ok (Continue after_quad)
   \<and> length (indexBuffer after_quad) < 2 ^ 32
   \<and> length (vertexBuffer after_triangle) = 3
   \<and> widen (indices quad) = [0, 1, 2, 2, 1, 3]
   \<and> indexBuffer after_quad = [0, 1, 2] @ [3, 4, 5, 5, 4, 6]
   \<and> map (\<lambda>g. g - 3) (drop 3 (indexBuffer after_quad)) = [0, 1, 2, 2, 1, 3]"
proof -
  have small: "length (indexBuffer after_quad) < 2 ^ 32"
    by (simp add: after_quad_def)
  have v: "length (vertexBuffer after_triangle) = 3"
    and w: "widen (indices quad) = [0, 1, 2, 2, 1, 3]"
    and i: "indexBuffer after_triangle = [0, 1, 2]"
    by (simp_all add: after_triangle_def quad_def)
  from loadPrimitive_index_offsetting [OF loadPrimitive_quad small]
  have "indexBuffer after_quad = [0, 1, 2] @ [3, 4, 5, 5, 4, 6]"
    and "map (\<lambda>g. g - 3) (drop 3 (indexBuffer after_quad)) = [0, 1, 2, 2, 1, 3]"
    by (simp_all add: v w i)
  with loadPrimitive_quad small v w show ?thesis
    by simp
qed

lemma loadVertices_no_position: "POSITION p = None \<Longrightarrow> loadVertices p = Ok []"
  by (simp add: loadVertices_def)

lemma load_no_position:
  "loadglTFFile 1 (Some no_position_input) = Some (Ok (Loaded no_position_loaded))"
  by (simp add: loadglTFFile_def no_position_input_def subscript_int_def subscript_def
      plain_node_def createNode_def Let_def newModel_def loadPrimitive_def
      loadVertices_def no_position_primitive_def pushPrimitive_def assign_def attach_def
      loadAnimations_def resize_def no_position_loaded_def newNode_def)

lemma loadVertices_bad_index: "loadVertices bad_index_primitive = Ok [plain_vertex (Vec3 0 0 0)]"
  by (simp add: loadVertices_def bad_index_primitive_def makeVertex_def subscript_def
      glm_normalize_zero plain_vertex_def)

lemma load_bad_index:
  "loadglTFFile 1 (Some bad_index_input) = Some (Ok (Loaded bad_index_loaded))"
  by (simp add: loadglTFFile_def bad_index_input_def subscript_int_def subscript_def
      plain_node_def createNode_def Let_def newModel_def loadPrimitive_def
      bad_index_primitive_def triangle_def loadVertices_def makeVertex_def
      glm_normalize_zero plain_vertex_def upt_rec [of 0] upt_rec [of "Suc 0"] upt_rec [of 2]
      pushPrimitive_def assign_def attach_def loadAnimations_def resize_def
      bad_index_loaded_def newNode_def)

lemma load_unresolved:
  "loadglTFFile 1 (Some unresolved_input) = Some (Ok (Loaded unresolved_loaded))"
  using FLT_MAX_positive
  by (simp add: loadglTFFile_def unresolved_input_def subscript_int_def subscript_def
      plain_node_def createNode_def Let_def newModel_def attach_def
      loadAnimations_def resize_def loadAnimation_def newAnimation_def newSampler_def
      newChannel_def loadSampler_def loadChannel_def unresolved_channel_def nodeFromIndex_def
      unresolved_loaded_def newNode_def FLT_MIN_def FLT_MAX_def)

text \<open>
  C5, as stated, fails: each of the three conditions is loaded to the end. The primitive
  without POSITION is loaded with its indices and no vertex, and nothing is printed; the
  node with the unknown index component type is left out, one line is printed, and the
  node after it is loaded; the channel with the unresolved target is stored with a null
  node. None of the loads ends in the fatal exit.
\<close>

theorem load_fatal_conditions_counterexample:
  "POSITION (gltf_meshes no_position_input ! 0 ! 0) = None
   \<and> loadglTFFile 1 (Some no_position_input) = Some (Ok (Loaded no_position_loaded))
   \<and> indices (gltf_meshes bad_index_input ! 0 ! 0) = OtherComponentType 5126 3
   \<and> loadglTFFile 1 (Some bad_index_input) = Some (Ok (Loaded bad_index_loaded))
   \<and> target_node (gltf_channels (gltf_animations unresolved_input ! 0) ! 0) = 7
   \<and> nodeFromIndex 1 (model unresolved_loaded) 7 = Some (Ok None)
   \<and> loadglTFFile 1 (Some unresolved_input) = Some (Ok (Loaded unresolved_loaded))
   \<and> Loaded no_position_loaded \<noteq> Fatal \<and> Loaded bad_index_loaded \<noteq> Fatal
   \<and> Loaded unresolved_loaded \<noteq> Fatal"
proof -
  have "POSITION (gltf_meshes no_position_input ! 0 ! 0) = None"
    by (simp add: no_position_input_def no_position_primitive_def)
  moreover have "indices (gltf_meshes bad_index_input ! 0 ! 0) = OtherComponentType 5126 3"
    by (simp add: bad_index_input_def bad_index_primitive_def)
  moreover have "target_node (gltf_channels (gltf_animations unresolved_input ! 0) ! 0) = 7"
    by (simp add: unresolved_input_def unresolved_channel_def)
  moreover have "nodeFromIndex 1 (model unresolved_loaded) 7 = Some (Ok None)"
    by (simp add: nodeFromIndex_def unresolved_loaded_def newNode_def)
  ultimately show ?thesis
    using load_no_position load_bad_index load_unresolved by simp
qed

lemma loadglTFFile_not_Fatal: "loadglTFFile fuel (Some input) \<noteq> Some (Ok Fatal)"
  by (simp add: loadglTFFile_def split: option.split result.split)

lemma loadPrimitive_unsupported:
  "indices p = OtherComponentType t n \<Longrightarrow> loadVertices p = Ok vs \<Longrightarrow>
   loadPrimitive p nodeAddr s =
     Ok (Return (s\<lparr>vertexBuffer := vertexBuffer s @ vs,
                  model := (model s)
                    \<lparr>console := console (model s) @ [IndexComponentTypeNotSupported t]\<rparr>\<rparr>))"
  by (simp add: loadPrimitive_def Let_def)

lemma loadNode_Return:
  assumes "loadChildren fuel input (length (heap (model s))) (gltf_children inputNode)
             (s\<lparr>model := (model s)
                 \<lparr>heap := heap (model s) @ [createNode inputNode p nodeIndex]\<rparr>\<rparr>) = Some (Ok s1)"
    and "gltf_mesh inputNode > - 1"
    and "subscript_int (gltf_meshes input) (gltf_mesh inputNode) = Ok ps"
    and "loadPrimitives ps (length (heap (model s))) s1 = Ok (Return s2)"
  shows "loadNode (Suc fuel) inputNode input p nodeIndex s = Some (Ok s2)"
  using assms by (simp add: Let_def)

lemma loadChannel_unresolved:
  "nodeFromIndex fuel m (of_int (target_node c)) = Some (Ok None) \<Longrightarrow>
   j < length (channels a) \<Longrightarrow>
   loadChannel fuel m c j a =
     Some (Ok (a\<lparr>channels := (channels a)
       [j := (channels a ! j)\<lparr>path := target_path c,
                               samplerIndex := of_int (gltf_sampler c), node := None\<rparr>]\<rparr>))"
  by (simp add: loadChannel_def subscript_def)

lemma loadPrimitive_Return:
  assumes "loadPrimitive p nodeAddr s = Ok (Return s')"
  shows "\<exists>vs t n. indices p = OtherComponentType t n \<and> loadVertices p = Ok vs
           \<and> s' = s\<lparr>vertexBuffer := vertexBuffer s @ vs,
                    model := (model s)
                      \<lparr>console := console (model s) @ [IndexComponentTypeNotSupported t]\<rparr>\<rparr>"
proof -
  from assms obtain vs where vs: "loadVertices p = Ok vs"
    by (auto simp: loadPrimitive_def Let_def rbind_Ok_iff)
  show ?thesis
  proof (cases "indices p")
    case (OtherComponentType t n)
    with assms vs show ?thesis
      by (simp add: loadPrimitive_def Let_def)
  qed (use assms vs in \<open>auto simp: loadPrimitive_def pushPrimitive_def Let_def rbind_Ok_iff\<close>)
qed

lemma map_update_same: "(map f xs)[i := f (xs ! i)] = map f xs"
  by (metis list_update_id map_update)

lemma loadPrimitives_unsupported:
  "\<not> list_all (\<lambda>p. supported (indices p)) ps \<Longrightarrow> loadPrimitives ps nodeAddr s = Ok r \<Longrightarrow>
   \<exists>s' t. r = Return s'
     \<and> nodes (model s') = nodes (model s)
     \<and> linearMeshNodes (model s') = linearMeshNodes (model s)
     \<and> map children (heap (model s')) = map children (heap (model s))
     \<and> console (model s') = console (model s) @ [IndexComponentTypeNotSupported t]"
proof (induction ps arbitrary: s)
  case Nil
  then show ?case by simp
next
  case (Cons p ps)
  from Cons.prems(2) obtain r1 where r1: "loadPrimitive p nodeAddr s = Ok r1"
    by (auto simp: rbind_Ok_iff)
  show ?case
  proof (cases r1)
    case (Return s1)
    with r1 Cons.prems(2) have "r = Return s1"
      by simp
    with loadPrimitive_Return [OF r1 [unfolded Return]] show ?thesis
      by auto
  next
    case (Continue s1)
    from loadPrimitive_Continue [OF r1 [unfolded Continue]]
    have sup: "supported (indices p)"
      and frame: "nodes (model s1) = nodes (model s)"
        "linearMeshNodes (model s1) = linearMeshNodes (model s)"
        "map children (heap (model s1)) = map children (heap (model s))"
        "console (model s1) = console (model s)"
      by (auto simp: map_update map_update_same)
    from sup Cons.prems(1) have "\<not> list_all (\<lambda>p. supported (indices p)) ps"
      by simp
    moreover from r1 Continue Cons.prems(2) have "loadPrimitives ps nodeAddr s1 = Ok r"
      by simp
    ultimately show ?thesis
      using Cons.IH [of s1] frame by simp
  qed
qed

text \<open>
  C5, amended. None of the three conditions ends the load. Once the file has been read,
  loadglTFFile never takes the fatal exit. A primitive without POSITION has no vertices. A
  mesh with an index accessor of an unknown component type makes the loop over its
  primitives return from loadNode: one line has been printed, and the node has not been
  added to the root nodes, to a parent or to the nodes with geometry; loadNode returns
  normally to its caller, which goes on with the next node. A channel whose target index
  resolves to no node is stored with a null node.
\<close>

theorem load_conditions_continue:
  "loadglTFFile fuel (Some input) \<noteq> Some (Ok Fatal)
   \<and> (POSITION p = None \<longrightarrow> loadVertices p = Ok [])
   \<and> (\<not> list_all (\<lambda>p. supported (indices p)) ps \<and> loadPrimitives ps nodeAddr s = Ok r \<longrightarrow>
        (\<exists>s' t. r = Return s'
           \<and> nodes (model s') = nodes (model s)
           \<and> linearMeshNodes (model s') = linearMeshNodes (model s)
           \<and> map children (heap (model s')) = map children (heap (model s))
           \<and> console (model s') = console (model s) @ [IndexComponentTypeNotSupported t]))
   \<and> (loadChildren fuel input (length (heap (model s0))) (gltf_children inputNode)
          (s0\<lparr>model := (model s0)
               \<lparr>heap := heap (model s0) @ [createNode inputNode q nodeIndex]\<rparr>\<rparr>) = Some (Ok s1)
        \<and> gltf_mesh inputNode > - 1
        \<and> subscript_int (gltf_meshes input) (gltf_mesh inputNode) = Ok ps1
        \<and> loadPrimitives ps1 (length (heap (model s0))) s1 = Ok (Return s2) \<longrightarrow>
        loadNode (Suc fuel) inputNode input q nodeIndex s0 = Some (Ok s2))
   \<and> (nodeFromIndex fuel m (of_int (target_node c)) = Some (Ok None) \<and> j < length (channels a) \<longrightarrow>
        loadChannel fuel m c j a =
          Some (Ok (a\<lparr>channels := (channels a)
            [j := (channels a ! j)\<lparr>path := target_path c,
                   samplerIndex := of_int (gltf_sampler c), node := None\<rparr>]\<rparr>)))"
  using loadglTFFile_not_Fatal [of fuel input] loadVertices_no_position [of p]
    loadPrimitives_unsupported [of ps nodeAddr s r]
    loadNode_Return [of fuel input s0 inputNode q nodeIndex s1 ps1 s2]
    loadChannel_unresolved [of fuel m c j a]
  by blast

lemma loadPrimitives_bad_index:
  "loadPrimitives [bad_index_primitive] 0 bad_index_created = Ok (Return bad_index_returned)"
  by (simp add: loadPrimitive_def loadVertices_bad_index Let_def)
     (simp add: bad_index_primitive_def bad_index_returned_def bad_index_created_def
        empty_loading_def newModel_def)

theorem load_conditions_continue_witness:
  "loadglTFFile 1 (Some bad_index_input) = Some (Ok (Loaded bad_index_loaded))
   \<and> POSITION no_position_primitive = None
   \<and> loadVertices no_position_primitive = Ok []
   \<and> \<not> list_all (\<lambda>p. supported (indices p)) [bad_index_primitive]
   \<and> loadPrimitives [bad_index_primitive] 0 bad_index_created = Ok (Return bad_index_returned)
   \<and> nodes (model bad_index_returned) = []
   \<and> linearMeshNodes (model bad_index_returned) = []
   \<and> console (model bad_index_returned) = [IndexComponentTypeNotSupported 5126]
   \<and> loadNode 2 (plain_node 0) bad_index_input None 0 empty_loading =
       Some (Ok bad_index_returned)
   \<and> nodeFromIndex 1 (model unresolved_loaded) (of_int (target_node unresolved_channel)) =
       Some (Ok None)
   \<and> loadChannel 1 (model unresolved_loaded) unresolved_channel 0 unresolved_before_channels =
       Some (Ok (animations (model unresolved_loaded) ! 0))"
proof -
  note c5 = load_conditions_continue
    [where fuel = 1 and input = bad_index_input and p = no_position_primitive
       and ps = "[bad_index_primitive]" and nodeAddr = 0 and s = bad_index_created
       and r = "Return bad_index_returned" and ?s0.0 = empty_loading
       and inputNode = "plain_node 0" and q = None and nodeIndex = 0
       and ?s1.0 = bad_index_created and ?ps1.0 = "[bad_index_primitive]"
       and ?s2.0 = bad_index_returned and m = "model unresolved_loaded"
       and c = unresolved_channel and j = 0 and a = unresolved_before_channels]
  have pos: "POSITION no_position_primitive = None"
    by (simp add: no_position_primitive_def)
  have unsup: "\<not> list_all (\<lambda>p. supported (indices p)) [bad_index_primitive]"
    by (simp add: bad_index_primitive_def)
  have kids: "loadChildren 1 bad_index_input (length (heap (model empty_loading)))
      (gltf_children (plain_node 0))
      (empty_loading\<lparr>model := (model empty_loading)
         \<lparr>heap := heap (model empty_loading) @ [createNode (plain_node 0) None 0]\<rparr>\<rparr>) =
      Some (Ok bad_index_created)"
    by (simp add: plain_node_def bad_index_created_def empty_loading_def newModel_def)
  have mesh: "gltf_mesh (plain_node 0) > - 1"
    "subscript_int (gltf_meshes bad_index_input) (gltf_mesh (plain_node 0)) =
       Ok [bad_index_primitive]"
    "length (heap (model empty_loading)) = 0"
    by (simp_all add: plain_node_def bad_index_input_def subscript_int_def subscript_def
        empty_loading_def newModel_def)
  have lookup: "nodeFromIndex 1 (model unresolved_loaded)
      (of_int (target_node unresolved_channel)) = Some (Ok None)"
    by (simp add: nodeFromIndex_def unresolved_loaded_def unresolved_channel_def newNode_def)
  have j: "0 < length (channels unresolved_before_channels)"
    by (simp add: unresolved_before_channels_def)
  from c5 pos have v: "loadVertices no_position_primitive = Ok []"
    by blast
  from c5 unsup loadPrimitives_bad_index
  have frame: "nodes (model bad_index_returned) = nodes (model bad_index_created)"
    "linearMeshNodes (model bad_index_returned) = linearMeshNodes (model bad_index_created)"
    by auto
  from c5 kids mesh loadPrimitives_bad_index
  have node: "loadNode 2 (plain_node 0) bad_index_input None 0 empty_loading =
      Some (Ok bad_index_returned)"
    by (simp add: numeral_2_eq_2)
  from c5 lookup j
  have "loadChannel 1 (model unresolved_loaded) unresolved_channel 0 unresolved_before_channels =
      Some (Ok (unresolved_before_channels\<lparr>channels := (channels unresolved_before_channels)
        [0 := (channels unresolved_before_channels ! 0)\<lparr>path := target_path unresolved_channel,
               samplerIndex := of_int (gltf_sampler unresolved_channel), node := None\<rparr>]\<rparr>))"
    by blast
  then have chan: "loadChannel 1 (model unresolved_loaded) unresolved_channel 0
      unresolved_before_channels = Some (Ok (animations (model unresolved_loaded) ! 0))"
    by (simp add: unresolved_before_channels_def unresolved_loaded_def unresolved_channel_def
        newChannel_def)
  from frame have "nodes (model bad_index_returned) = []"
    "linearMeshNodes (model bad_index_returned) = []"
    by (simp_all add: bad_index_created_def empty_loading_def newModel_def)
  moreover have "console (model bad_index_returned) = [IndexComponentTypeNotSupported 5126]"
    by (simp add: bad_index_returned_def)
  ultimately show ?thesis
    using load_bad_index pos v unsup loadPrimitives_bad_index node lookup chan by simp
qed

section \<open>The loader builds a forest and only appends to the buffers\<close>

lemma tree_store_children_cong:
  assumes "map children h = map children h'"
  shows "tree_store h = tree_store h'"
proof -
  from assms have len: "length h = length h'"
    by (rule map_eq_imp_length_eq)
  have "children (h ! a) = children (h' ! a)" if "a < length h" for a
    using that assms len by (metis nth_map)
  with len show ?thesis
    by (simp add: tree_store_def)
qed

lemma tree_store_snoc:
  assumes "tree_store h" and "children x = []"
  shows "tree_store (h @ [x])"
  unfolding tree_store_def
proof (intro allI impI ballI)
  fix a c
  assume a: "a < length (h @ [x])" and c: "c \<in> set (children ((h @ [x]) ! a))"
  show "a < c \<and> c < length (h @ [x])"
  proof (cases "a < length h")
    case True
    with c have "c \<in> set (children (h ! a))"
      by (simp add: nth_append)
    with assms(1) True have "a < c \<and> c < length h"
      unfolding tree_store_def by blast
    then show ?thesis by simp
  next
    case False
    with a have "(h @ [x]) ! a = x"
      by (simp add: nth_append)
    with c assms(2) show ?thesis by simp
  qed
qed

lemma tree_store_add_child:
  assumes "tree_store h" and "a < n" and "n < length h"
  shows "tree_store (h[a := (h ! a)\<lparr>children := children (h ! a) @ [n]\<rparr>])"
  unfolding tree_store_def
proof (intro allI impI ballI)
  fix b c
  let ?h = "h[a := (h ! a)\<lparr>children := children (h ! a) @ [n]\<rparr>]"
  assume b: "b < length ?h" and c: "c \<in> set (children (?h ! b))"
  from b have b': "b < length h"
    by simp
  show "b < c \<and> c < length ?h"
  proof (cases "b = a")
    case True
    with b' c have "c \<in> set (children (h ! a)) \<or> c = n"
      by auto
    then show ?thesis
    proof
      assume "c \<in> set (children (h ! a))"
      from tree_storeD [OF assms(1) _ this] b' True show ?thesis
        by simp
    next
      assume "c = n"
      with assms(2,3) True show ?thesis
        by simp
    qed
  next
    case False
    with b' c have "c \<in> set (children (h ! b))"
      by simp
    from tree_storeD [OF assms(1) b' this] show ?thesis
      by simp
  qed
qed

lemma loadPrimitives_frame:
  "loadPrimitives ps nodeAddr s = Ok r \<Longrightarrow>
   \<exists>s'. (r = Continue s' \<or> r = Return s')
     \<and> map children (heap (model s')) = map children (heap (model s))
     \<and> nodes (model s') = nodes (model s)
     \<and> (\<exists>is. indexBuffer s' = indexBuffer s @ is)
     \<and> (\<exists>vs. vertexBuffer s' = vertexBuffer s @ vs)"
proof (induction ps arbitrary: s)
  case Nil
  then show ?case by auto
next
  case (Cons p ps)
  from Cons.prems obtain r1 where r1: "loadPrimitive p nodeAddr s = Ok r1"
    by (auto simp: rbind_Ok_iff)
  show ?case
  proof (cases r1)
    case (Return s1)
    with r1 Cons.prems have "r = Return s1"
      by simp
    with loadPrimitive_Return [OF r1 [unfolded Return]] show ?thesis
      by auto
  next
    case (Continue s1)
    from loadPrimitive_Continue [OF r1 [unfolded Continue]]
    have frame: "map children (heap (model s1)) = map children (heap (model s))"
      "nodes (model s1) = nodes (model s)"
      "\<exists>is. indexBuffer s1 = indexBuffer s @ is"
      "\<exists>vs. vertexBuffer s1 = vertexBuffer s @ vs"
      by (auto simp: map_update map_update_same)
    from r1 Continue Cons.prems have "loadPrimitives ps nodeAddr s1 = Ok r"
      by simp
    from Cons.IH [OF this] frame show ?thesis
      by (metis append.assoc)
  qed
qed

lemma attach_tree:
  assumes "attach n p m = Ok m'" and "tree_store (heap m)" and "n < length (heap m)"
    and "\<And>a. p = Some a \<Longrightarrow> a < n" and "set (nodes m) \<subseteq> {..<length (heap m)}"
  shows "tree_store (heap m') \<and> set (nodes m') \<subseteq> {..<length (heap m')}
         \<and> length (heap m') = length (heap m)"
proof (cases p)
  case None
  with assms(1) have "heap m' = heap m" "set (nodes m') = insert n (set (nodes m))"
    by (auto simp: attach_def rbind_Ok_iff subscript_def split: if_splits)
  with assms(2,3,5) show ?thesis by auto
next
  case (Some a)
  with assms(4) have "a < n" by simp
  with Some assms(1,3)
  have "heap m' = (heap m)[a := (heap m ! a)\<lparr>children := children (heap m ! a) @ [n]\<rparr>]"
    "nodes m' = nodes m"
    by (auto simp: attach_def assign_def rbind_Ok_iff subscript_def split: if_splits)
  with tree_store_add_child [OF assms(2) \<open>a < n\<close> assms(3)] assms(5) show ?thesis
    by simp
qed

lemma grows_refl: "grows s s"
  by (simp add: grows_def)

lemma grows_trans: "grows s s1 \<Longrightarrow> grows s1 s2 \<Longrightarrow> grows s s2"
  unfolding grows_def by (metis append.assoc le_trans)

lemma children_createNode: "children (createNode inputNode p nodeIndex) = []"
  by (simp add: createNode_def Let_def newNode_def)

lemma loadPrimitives_forest:
  assumes "loadPrimitives ps nodeAddr s = Ok r" and "forest_state s"
  shows "\<exists>s'. (r = Continue s' \<or> r = Return s') \<and> forest_state s' \<and> grows s s'
           \<and> length (heap (model s')) = length (heap (model s))"
proof -
  from loadPrimitives_frame [OF assms(1)] obtain s' where
    r: "r = Continue s' \<or> r = Return s'"
    and ch: "map children (heap (model s')) = map children (heap (model s))"
    and n: "nodes (model s') = nodes (model s)"
    and b: "\<exists>is. indexBuffer s' = indexBuffer s @ is" "\<exists>vs. vertexBuffer s' = vertexBuffer s @ vs"
    by blast
  from ch have len: "length (heap (model s')) = length (heap (model s))"
    by (rule map_eq_imp_length_eq)
  from assms(2) tree_store_children_cong [OF ch] n len have "forest_state s'"
    by (simp add: forest_state_def)
  moreover from b len have "grows s s'"
    by (simp add: grows_def)
  ultimately show ?thesis
    using r len by blast
qed

text \<open>
  loadNode and the loop over the children keep the forest and only append: nodes to the
  store, indices to the index buffer, vertices to the vertex buffer. The slices recorded
  for earlier primitives therefore stay where they are.
\<close>

lemma loadNode_forest:
  "\<forall>s'. loadNode fuel inputNode input p nodeIndex s = Some (Ok s') \<longrightarrow> forest_state s \<longrightarrow>
      (\<forall>a. p = Some a \<longrightarrow> a < length (heap (model s))) \<longrightarrow> forest_state s' \<and> grows s s'"
  "\<forall>s'. loadChildren fuel input nodeAddr cs s = Some (Ok s') \<longrightarrow> forest_state s \<longrightarrow>
      nodeAddr < length (heap (model s)) \<longrightarrow> forest_state s' \<and> grows s s'"
proof (induction fuel inputNode input p nodeIndex s and fuel input nodeAddr cs s
    rule: loadNode_loadChildren.induct)
  case (1 inputNode input p nodeIndex s)
  show ?case by simp
next
  case (2 fuel inputNode input p nodeIndex s)
  let ?n = "length (heap (model s))"
  let ?s1 = "s\<lparr>model := (model s)
      \<lparr>heap := heap (model s) @ [createNode inputNode p nodeIndex]\<rparr>\<rparr>"
  note IH = "2.IH" [OF refl refl, rule_format]
  show ?case
  proof (intro allI impI)
    fix s'
    assume run: "loadNode (Suc fuel) inputNode input p nodeIndex s = Some (Ok s')"
      and fs: "forest_state s"
      and pv: "\<forall>a. p = Some a \<longrightarrow> a < length (heap (model s))"
    from fs have fs1: "forest_state ?s1"
      by (auto simp: forest_state_def tree_store_snoc children_createNode)
    have g1: "grows s ?s1"
      by (simp add: grows_def)
    from run obtain s2 where
      kids: "loadChildren fuel input ?n (gltf_children inputNode) ?s1 = Some (Ok s2)"
      and rest: "rbind
          (if gltf_mesh inputNode > - 1
           then rbind (subscript_int (gltf_meshes input) (gltf_mesh inputNode))
                  (\<lambda>ps. loadPrimitives ps ?n s2)
           else Ok (Continue s2))
          (\<lambda>r. case r of
             Return s \<Rightarrow> Ok s
           | Continue s \<Rightarrow> rbind (attach ?n p (model s)) (\<lambda>m. Ok (s\<lparr>model := m\<rparr>))) = Ok s'"
      by (auto simp: Let_def split: option.splits result.splits)
    from IH [OF kids fs1] have fs2: "forest_state s2" and g2: "grows ?s1 s2"
      by simp_all
    from g2 have n2: "?n < length (heap (model s2))"
      by (simp add: grows_def)
    from rest obtain r where
      r: "(if gltf_mesh inputNode > - 1
           then rbind (subscript_int (gltf_meshes input) (gltf_mesh inputNode))
                  (\<lambda>ps. loadPrimitives ps ?n s2)
           else Ok (Continue s2)) = Ok r"
      and fin: "(case r of
             Return s \<Rightarrow> Ok s
           | Continue s \<Rightarrow> rbind (attach ?n p (model s)) (\<lambda>m. Ok (s\<lparr>model := m\<rparr>))) = Ok s'"
      by (auto simp: rbind_Ok_iff)
    have "\<exists>s3. (r = Continue s3 \<or> r = Return s3) \<and> forest_state s3 \<and> grows s2 s3
        \<and> length (heap (model s3)) = length (heap (model s2))"
    proof (cases "gltf_mesh inputNode > - 1")
      case True
      with r obtain ps where "loadPrimitives ps ?n s2 = Ok r"
        by (auto simp: rbind_Ok_iff)
      from loadPrimitives_forest [OF this fs2] show ?thesis .
    next
      case False
      with r fs2 show ?thesis
        by (auto simp: grows_refl)
    qed
    then obtain s3 where
      r3: "r = Continue s3 \<or> r = Return s3" and fs3: "forest_state s3"
      and g3: "grows s2 s3" and l3: "length (heap (model s3)) = length (heap (model s2))"
      by blast
    from g1 g2 g3 have g: "grows s s3"
      by (blast intro: grows_trans)
    from r3 show "forest_state s' \<and> grows s s'"
    proof
      assume "r = Return s3"
      with fin fs3 g show ?thesis
        by simp
    next
      assume "r = Continue s3"
      with fin obtain m where
        att: "attach ?n p (model s3) = Ok m" and s': "s' = s3\<lparr>model := m\<rparr>"
        by (auto simp: rbind_Ok_iff)
      from fs3 have t3: "tree_store (heap (model s3))"
        and r3: "set (nodes (model s3)) \<subseteq> {..<length (heap (model s3))}"
        by (simp_all add: forest_state_def)
      from n2 l3 have n3: "?n < length (heap (model s3))"
        by simp
      from pv have "\<And>a. p = Some a \<Longrightarrow> a < ?n"
        by simp
      from attach_tree [OF att t3 n3 this r3]
      have "forest_state s'" "length (heap (model s')) = length (heap (model s3))"
        by (auto simp: s' forest_state_def)
      moreover from g have "grows s s'"
        using \<open>length (heap (model s')) = length (heap (model s3))\<close>
        by (simp add: grows_def s')
      ultimately show ?thesis
        by simp
    qed
  qed
next
  case (3 fuel input nodeAddr s)
  show ?case by (simp add: grows_refl)
next
  case (4 fuel input nodeAddr c cs s)
  show ?case
  proof (intro allI impI)
    fix s'
    assume run: "loadChildren fuel input nodeAddr (c # cs) s = Some (Ok s')"
      and fs: "forest_state s" and nv: "nodeAddr < length (heap (model s))"
    from run obtain inputNode s1 where
      sub: "subscript_int (gltf_nodes input) c = Ok inputNode"
      and child: "loadNode fuel inputNode input (Some nodeAddr) (of_int c) s = Some (Ok s1)"
      and rest: "loadChildren fuel input nodeAddr cs s1 = Some (Ok s')"
      by (auto split: option.splits result.splits)
    from "4.IH"(1) [OF sub, rule_format, OF child fs] nv
    have fs1: "forest_state s1" and g1: "grows s s1"
      by simp_all
    from g1 nv have "nodeAddr < length (heap (model s1))"
      by (simp add: grows_def)
    from "4.IH"(2) [OF sub child refl, rule_format, OF rest fs1 this]
    have "forest_state s'" "grows s1 s'"
      by simp_all
    with g1 show "forest_state s' \<and> grows s s'"
      by (blast intro: grows_trans)
  qed
qed

lemma loadRoots_forest:
  "loadRoots fuel input rs s = Some (Ok s') \<Longrightarrow> forest_state s \<Longrightarrow>
   forest_state s' \<and> grows s s'"
proof (induction rs arbitrary: s)
  case Nil
  then show ?case by (simp add: grows_refl)
next
  case (Cons r rs)
  from Cons.prems(1) obtain inputNode s1 where
    root: "loadNode fuel inputNode input None (of_int r) s = Some (Ok s1)"
    and rest: "loadRoots fuel input rs s1 = Some (Ok s')"
    by (auto split: option.splits result.splits)
  from loadNode_forest(1) [rule_format, OF root Cons.prems(2)]
  have fs1: "forest_state s1" and g1: "grows s s1"
    by simp_all
  from Cons.IH [OF rest fs1] g1 show ?case
    by (blast intro: grows_trans)
qed

lemma loadAnimation_heap:
  "loadAnimation fuel glTFAnimation i m = Some (Ok m') \<Longrightarrow>
   heap m' = heap m \<and> nodes m' = nodes m"
  by (auto simp: loadAnimation_def Let_def split: option.splits result.splits prod.splits)

lemma loadAnimations_loop_heap:
  "loadAnimations_loop fuel gs i m = Some (Ok m') \<Longrightarrow>
   heap m' = heap m \<and> nodes m' = nodes m"
proof (induction gs arbitrary: i m)
  case Nil
  then show ?case by simp
next
  case (Cons g gs)
  from Cons.prems obtain m1 where
    one: "loadAnimation fuel g i m = Some (Ok m1)"
    and rest: "loadAnimations_loop fuel gs (i + 1) m1 = Some (Ok m')"
    by (auto split: option.splits result.splits)
  from Cons.IH [OF rest] loadAnimation_heap [OF one] show ?case
    by simp
qed

text \<open>
  What a load hands on holds a forest: every child was allocated after its parent, and the
  root nodes are nodes of the store.
\<close>

lemma loadglTFFile_forest:
  assumes "loadglTFFile fuel (Some input) = Some (Ok (Loaded s))"
  shows "tree_store (heap (model s)) \<and> set (nodes (model s)) \<subseteq> {..<length (heap (model s))}"
proof -
  let ?s0 = "\<lparr>model = newModel, indexBuffer = [], vertexBuffer = []\<rparr>"
  from assms obtain s1 m where
    roots: "loadRoots fuel input (scene_nodes input) ?s0 = Some (Ok s1)"
    and anim: "loadAnimations fuel input (model s1) = Some (Ok m)"
    and s: "s = s1\<lparr>model := m\<rparr>"
    by (auto simp: loadglTFFile_def split: option.splits result.splits)
  have "forest_state ?s0"
    by (simp add: forest_state_def tree_store_def newModel_def)
  from loadRoots_forest [OF roots this] have "forest_state s1"
    by simp
  moreover from anim have "heap m = heap (model s1) \<and> nodes m = nodes (model s1)"
    unfolding loadAnimations_def using loadAnimations_loop_heap by fastforce
  ultimately show ?thesis
    by (simp add: forest_state_def s)
qed

end
